theory Spec2Isabelle
  imports Complex_Main "HOL-Library.AList"
begin

section \<open>Conventions of the embedding\<close>

text \<open>
  The Python sources are embedded function by function.  Conventions:
  \<^item> a \<^verbatim>\<open>datetime\<close> is an \<open>int\<close>, the number of microseconds since a fixed epoch, and
    every call of \<^verbatim>\<open>datetime.now()\<close> is a parameter \<open>now\<close> of the embedded function (the
    calls within one run of a function get the same clock value);
  \<^item> a Python \<^verbatim>\<open>float\<close> is a \<open>real\<close>: rounding of binary floating point is not modelled;
  \<^item> \<^verbatim>\<open>event_bus.publish(topic, data)\<close> appends the event to the \<open>published\<close> log of the
    publishing component; what the subscribers do is the handler functions of the other
    components;
  \<^item> logging has no effect on the state and is left out;
  \<^item> an exception that leaves a function is the \<open>Inl\<close> branch of its result.
\<close>

datatype py_error = KeyError | RuntimeError | ValidationError | TypeError

text \<open>\<^verbatim>\<open>collections.deque(maxlen=n).append(x)\<close>: the oldest entries fall out on the left.\<close>

definition deque_append :: "nat \<Rightarrow> 'a list \<Rightarrow> 'a \<Rightarrow> 'a list" where
  "deque_append maxlen d x = drop (length d + 1 - maxlen) (d @ [x])"

text \<open>\<^verbatim>\<open>timedelta(seconds=n)\<close> in microseconds.\<close>

definition seconds :: "int \<Rightarrow> int" where
  "seconds n = n * 1000000"

section \<open>domain/entities/strategic\_signal.py\<close>

datatype SetupType =
  REVERSAL_SLOW | REVERSAL_VIOLENT | BREAKOUT_IGNITION | PULLBACK_REJECTION | DIVERGENCE_SETUP

datatype SignalState = PENDING | ACTIVE | EXECUTED | EXPIRED | STOPPED | TARGET_HIT

datatype ConflictStatus = NO_CONFLICT | MINOR_CONFLICT | MAJOR_CONFLICT

datatype EntryType = MARKET | LIMIT | STOP | ADAPTIVE

text \<open>
  The adjustment dictionary of the context filters, which
  \<^verbatim>\<open>_apply_filter_adjustments\<close> stores under \<^verbatim>\<open>setup_details['filter_adjustments']\<close>:
  one optional entry per key the filters ever write.
\<close>

record adjustments =
  reduce_size :: "real option"
  use_limit_orders :: "bool option"
  widen_stop :: "real option"
  tighten_stop :: "real option"

text \<open>
  The warnings of the context filters, one constructor per message (the imbalance warning
  carries the heavier side and the ratio), and the entries of \<^verbatim>\<open>confluence_factors\<close>:
  the detector's strings and the filter warnings that \<^verbatim>\<open>create_strategic_signal\<close>
  appends.
\<close>

datatype filter_warning = INVALID_PRICE | LOW_RISK_REWARD | BOOK_IMBALANCE string real

datatype factor = FACTOR string | FILTER_WARNING filter_warning

record StrategicSignal =
  sig_id :: string
  timestamp :: int
  symbol :: string
  setup_type :: SetupType
  direction :: string
  state :: SignalState
  entry_price :: real
  entry_type :: EntryType
  stop_loss :: real
  targets :: "real list"
  confidence :: real
  risk_reward :: real
  conflict_status :: ConflictStatus
  confluence_factors :: "factor list"
  expiration_time :: int
  time_to_expiry_seconds :: int
  filter_adjustments :: "adjustments option"
  created_by :: string
  execution_price :: "real option"
  execution_time :: "int option"
  exit_price :: "real option"
  exit_time :: "int option"
  pnl :: "real option"

text \<open>
  The keyword arguments of \<^verbatim>\<open>update_state\<close>: a key that is present carries a price.
\<close>

record kwargs =
  kw_execution_price :: "real option"
  kw_exit_price :: "real option"

definition no_kwargs :: kwargs where
  "no_kwargs = \<lparr>kw_execution_price = None, kw_exit_price = None\<rparr>"

text \<open>Python truthiness of an optional float: \<^verbatim>\<open>None\<close> and \<^verbatim>\<open>0.0\<close> are false.\<close>

fun truthy :: "real option \<Rightarrow> bool" where
  "truthy None = False"
| "truthy (Some x) = (x \<noteq> 0)"

definition is_expired :: "StrategicSignal \<Rightarrow> int \<Rightarrow> bool" where
  "is_expired s now = (now \<ge> expiration_time s)"

definition update_state :: "StrategicSignal \<Rightarrow> SignalState \<Rightarrow> kwargs \<Rightarrow> int \<Rightarrow> StrategicSignal" where
  "update_state s new_state kw now =
     (let s1 = s\<lparr>state := new_state\<rparr> in
      if new_state = EXECUTED \<and> kw_execution_price kw \<noteq> None then
        s1\<lparr>execution_price := kw_execution_price kw, execution_time := Some now\<rparr>
      else if new_state \<in> set [STOPPED, TARGET_HIT] \<and> kw_exit_price kw \<noteq> None then
        (let s2 = s1\<lparr>exit_price := kw_exit_price kw, exit_time := Some now\<rparr> in
         if truthy (execution_price s2) then
           (case (exit_price s2, execution_price s2) of
              (Some ex, Some en) \<Rightarrow>
                if direction s2 = ''COMPRA'' then s2\<lparr>pnl := Some ((ex - en) * 10)\<rparr>
                else s2\<lparr>pnl := Some ((en - ex) * 10)\<rparr>
            | _ \<Rightarrow> s2)
         else s2)
      else s1)"

section \<open>application/services/setup\_lifecycle\_manager.py\<close>

datatype lc_event =
  STRATEGIC_SIGNAL_CREATED StrategicSignal int
| STRATEGIC_SIGNAL_STATE_CHANGED string SignalState SignalState StrategicSignal
| STRATEGIC_SIGNAL_EXPIRED StrategicSignal string

text \<open>
  The manager: the active signals by id, the bounded history, the timeout table, the
  counters, the events published so far and the one-shot timers started so far (delay in
  seconds and the signal id handed to \<^verbatim>\<open>_auto_activate_signal\<close>).
  \<^verbatim>\<open>register_state_callback\<close> has no caller in the repository, so every callback list
  is empty and the loop over the callbacks of \<^verbatim>\<open>transition_state\<close> does nothing.
\<close>

record SetupLifecycleManager =
  active_signals :: "string \<rightharpoonup> StrategicSignal"
  signal_history :: "StrategicSignal list"
  timeout_config :: "SetupType \<rightharpoonup> int"
  total_created :: nat
  total_executed :: nat
  total_expired :: nat
  total_stopped :: nat
  total_targets_hit :: nat
  published :: "lc_event list"
  timers :: "(nat \<times> string) list"

text \<open>\<^verbatim>\<open>dict.get(key, default)\<close>.\<close>

definition dict_get :: "('k \<rightharpoonup> 'v) \<Rightarrow> 'k \<Rightarrow> 'v \<Rightarrow> 'v" where
  "dict_get m k d = (case m k of None \<Rightarrow> d | Some v \<Rightarrow> v)"

text \<open>The timeout table that \<^verbatim>\<open>__init__\<close> builds from the configuration section.\<close>

definition init_timeout_config :: "(string \<rightharpoonup> int) \<Rightarrow> (SetupType \<rightharpoonup> int)" where
  "init_timeout_config cfg =
     [REVERSAL_SLOW \<mapsto> dict_get cfg ''reversal_slow'' 600,
      REVERSAL_VIOLENT \<mapsto> dict_get cfg ''reversal_violent'' 300,
      BREAKOUT_IGNITION \<mapsto> dict_get cfg ''breakout_ignition'' 900,
      PULLBACK_REJECTION \<mapsto> dict_get cfg ''pullback_rejection'' 600,
      DIVERGENCE_SETUP \<mapsto> dict_get cfg ''divergence_setup'' 480]"

definition init_lifecycle_manager :: "(string \<rightharpoonup> int) \<Rightarrow> SetupLifecycleManager" where
  "init_lifecycle_manager cfg =
     \<lparr>active_signals = Map.empty, signal_history = [],
      timeout_config = init_timeout_config cfg,
      total_created = 0, total_executed = 0, total_expired = 0, total_stopped = 0,
      total_targets_hit = 0, published = [], timers = []\<rparr>"

definition create_signal ::
  "SetupLifecycleManager \<Rightarrow> StrategicSignal \<Rightarrow> int \<Rightarrow> bool \<times> SetupLifecycleManager" where
  "create_signal m signal now =
     (let timeout_seconds = dict_get (timeout_config m) (setup_type signal) 300;
          signal' = signal\<lparr>expiration_time := now + seconds timeout_seconds,
                          time_to_expiry_seconds := timeout_seconds,
                          state := PENDING\<rparr>
      in (True,
          m\<lparr>active_signals := (active_signals m)(sig_id signal' \<mapsto> signal'),
            total_created := total_created m + 1,
            published := published m @ [STRATEGIC_SIGNAL_CREATED signal' timeout_seconds],
            timers := timers m @ [(2, sig_id signal')]\<rparr>))"

definition valid_transitions :: "SignalState \<rightharpoonup> SignalState list" where
  "valid_transitions =
     [PENDING \<mapsto> [ACTIVE, EXPIRED],
      ACTIVE \<mapsto> [EXECUTED, EXPIRED],
      EXECUTED \<mapsto> [STOPPED, TARGET_HIT],
      EXPIRED \<mapsto> [],
      STOPPED \<mapsto> [],
      TARGET_HIT \<mapsto> []]"

definition is_valid_transition :: "SignalState \<Rightarrow> SignalState \<Rightarrow> bool" where
  "is_valid_transition from_state to_state =
     (to_state \<in> set (dict_get valid_transitions from_state []))"

text \<open>
  \<^verbatim>\<open>_archive_signal\<close>: \<^verbatim>\<open>del self.active_signals[signal.id]\<close> raises \<^verbatim>\<open>KeyError\<close> when the
  key is absent.
\<close>

definition archive_signal ::
  "SetupLifecycleManager \<Rightarrow> StrategicSignal \<Rightarrow> py_error + SetupLifecycleManager" where
  "archive_signal m signal =
     (let m1 = m\<lparr>signal_history := deque_append 100 (signal_history m) signal\<rparr> in
      if active_signals m1 (sig_id signal) = None then Inl KeyError
      else Inr (m1\<lparr>active_signals := (active_signals m1)(sig_id signal := None)\<rparr>))"

definition update_statistics :: "SetupLifecycleManager \<Rightarrow> SignalState \<Rightarrow> SetupLifecycleManager" where
  "update_statistics m new_state =
     (if new_state = EXECUTED then m\<lparr>total_executed := total_executed m + 1\<rparr>
      else if new_state = EXPIRED then m\<lparr>total_expired := total_expired m + 1\<rparr>
      else if new_state = STOPPED then m\<lparr>total_stopped := total_stopped m + 1\<rparr>
      else if new_state = TARGET_HIT then m\<lparr>total_targets_hit := total_targets_hit m + 1\<rparr>
      else m)"

text \<open>
  \<^verbatim>\<open>transition_state\<close>.  The signal is mutated in place, so the entry of the active map
  under \<open>signal_id\<close> is the updated signal from \<^verbatim>\<open>signal.update_state\<close> on.
\<close>

definition transition_state ::
  "SetupLifecycleManager \<Rightarrow> string \<Rightarrow> SignalState \<Rightarrow> kwargs \<Rightarrow> int
     \<Rightarrow> py_error + (bool \<times> SetupLifecycleManager)" where
  "transition_state m signal_id new_state kw now =
     (case active_signals m signal_id of
        None \<Rightarrow> Inr (False, m)
      | Some signal \<Rightarrow>
          (let old_state = state signal in
           if \<not> is_valid_transition old_state new_state then Inr (False, m)
           else
             (let signal' = update_state signal new_state kw now;
                  m1 = m\<lparr>active_signals := (active_signals m)(signal_id \<mapsto> signal')\<rparr>;
                  m2 = m1\<lparr>published := published m1 @
                            [STRATEGIC_SIGNAL_STATE_CHANGED signal_id old_state new_state signal']\<rparr>;
                  m3 = update_statistics m2 new_state
              in if new_state \<in> set [EXPIRED, STOPPED, TARGET_HIT] then
                   (case archive_signal m3 signal' of
                      Inl e \<Rightarrow> Inl e
                    | Inr m4 \<Rightarrow> Inr (True, m4))
                 else Inr (True, m3))))"

text \<open>\<^verbatim>\<open>_auto_activate_signal\<close>, the body of the timer started by \<^verbatim>\<open>create_signal\<close>.\<close>

definition auto_activate_signal ::
  "SetupLifecycleManager \<Rightarrow> string \<Rightarrow> int \<Rightarrow> py_error + SetupLifecycleManager" where
  "auto_activate_signal m signal_id now =
     (case active_signals m signal_id of
        None \<Rightarrow> Inr m
      | Some signal \<Rightarrow>
          if state signal = PENDING then
            (case transition_state m signal_id ACTIVE no_kwargs now of
               Inl e \<Rightarrow> Inl e
             | Inr (_, m') \<Rightarrow> Inr m')
          else Inr m)"

text \<open>
  Every signal of the active map is stored under its own id: \<^verbatim>\<open>create_signal\<close> is the only
  writer of new keys and stores under \<^verbatim>\<open>signal.id\<close>, which nothing changes afterwards.
\<close>

definition keys_are_ids :: "SetupLifecycleManager \<Rightarrow> bool" where
  "keys_are_ids m = (\<forall>k s. active_signals m k = Some s \<longrightarrow> sig_id s = k)"

text \<open>The transition table as the specification lists it.\<close>

definition transition_table :: "(SignalState \<times> SignalState) set" where
  "transition_table =
     {(PENDING, ACTIVE), (PENDING, EXPIRED), (ACTIVE, EXECUTED), (ACTIVE, EXPIRED),
      (EXECUTED, STOPPED), (EXECUTED, TARGET_HIT)}"

section \<open>domain/entities/signal.py\<close>

datatype SignalSource =
  ARBITRAGE | TAPE_READING | CONFLUENCE | SYSTEM | MANIPULATION | STRATEGIC | DIVERGENCE_WARNING

datatype SignalLevel = INFO | WARNING | ALERT

text \<open>
  The divergence event that the divergence detector puts into the details of a warning
  signal; the position manager reads its symbol and its direction.
\<close>

record divergence_event =
  symbol_dv :: string
  direction_dv :: string

text \<open>
  \<^verbatim>\<open>Signal.details\<close> is a dictionary; the model has one optional entry for each key
  that the risk service and the position manager read.
\<close>

record details =
  profit_reais :: "real option"
  profit :: "real option"
  confirmations :: "string list option"
  original_pattern :: "string option"
  cvd_roc :: "real option"
  divergence_event :: "divergence_event option"

record Signal =
  source :: SignalSource
  level :: SignalLevel
  message :: string
  timestamp_sg :: int
  details :: details

section \<open>application/services/risk\_management\_service.py\<close>

datatype RiskLevel = LOW | MEDIUM | HIGH | CRITICAL

datatype SignalQuality = POOR | FAIR | GOOD | EXCELLENT

text \<open>The entries of \<^verbatim>\<open>assessment['reasons']\<close>, one constructor per message.\<close>

datatype reason =
  BREAKER_EMERGENCY
| BREAKER_CONSECUTIVE_LOSSES int
| BREAKER_DRAWDOWN real
| BREAKER_FREQUENCY
| BREAKER_QUALITY
| FREQUENCY_PER_MINUTE nat int
| FREQUENCY_PER_HOUR nat int
| FREQUENCY_CONFLUENCE nat int
| INSUFFICIENT_QUALITY real
| CONTEXTUAL_RISK "string list"

text \<open>The entries of \<^verbatim>\<open>assessment['recommendations']\<close>.\<close>

datatype recommendation =
  PREFER_CONFLUENCE | SEEK_HIGHER_PROFIT | AWAIT_CONFIRMATIONS | HIGH_QUALITY_SIGNAL | GOOD_SIGNAL

record assessment =
  approved :: bool
  risk_level :: RiskLevel
  quality :: SignalQuality
  reasons :: "reason list"
  recommendations :: "recommendation list"
  timestamp_as :: int

datatype risk_event =
  SIGNAL_APPROVED Signal assessment
| SIGNAL_REJECTED Signal assessment
| RISK_OVERRIDE string bool bool string int

text \<open>
  The service: its configuration, the four timestamp deques of \<^verbatim>\<open>signal_timestamps\<close>,
  the performance metrics, the five circuit breakers and the events published so far.
\<close>

record RiskManagementService =
  max_signals_per_minute :: int
  max_signals_per_hour :: int
  max_confluence_per_hour :: int
  signal_quality_threshold :: real
  consecutive_losses_limit :: int
  max_drawdown_percent :: real
  emergency_stop_loss :: real
  signal_history_rm :: "(Signal \<times> assessment \<times> int) list"
  ts_all :: "int list"
  ts_confluence :: "int list"
  ts_arbitrage :: "int list"
  ts_tape_reading :: "int list"
  total_signals :: nat
  signals_approved :: nat
  signals_rejected :: nat
  consecutive_losses :: int
  daily_pnl :: real
  peak_pnl :: real
  current_drawdown :: real
  metric_risk_level :: RiskLevel
  cb_frequency :: bool
  cb_quality :: bool
  cb_drawdown :: bool
  cb_consecutive_losses :: bool
  cb_emergency :: bool
  published_rm :: "risk_event list"

text \<open>\<^verbatim>\<open>__init__\<close> with the default configuration.\<close>

definition init_risk_service :: RiskManagementService where
  "init_risk_service =
     \<lparr>max_signals_per_minute = 10, max_signals_per_hour = 100, max_confluence_per_hour = 20,
      signal_quality_threshold = 0.4, consecutive_losses_limit = 5,
      max_drawdown_percent = 2.0, emergency_stop_loss = 1000.0,
      signal_history_rm = [], ts_all = [], ts_confluence = [], ts_arbitrage = [],
      ts_tape_reading = [],
      total_signals = 0, signals_approved = 0, signals_rejected = 0, consecutive_losses = 0,
      daily_pnl = 0, peak_pnl = 0, current_drawdown = 0, metric_risk_level = LOW,
      cb_frequency = False, cb_quality = False, cb_drawdown = False,
      cb_consecutive_losses = False, cb_emergency = False, published_rm = []\<rparr>"

definition calculate_current_risk_level :: "RiskManagementService \<Rightarrow> RiskLevel" where
  "calculate_current_risk_level r =
     (if cb_emergency r then CRITICAL
      else if cb_consecutive_losses r \<or> cb_drawdown r then CRITICAL
      else if consecutive_losses r \<ge> consecutive_losses_limit r then CRITICAL
      else if real_of_int (consecutive_losses r) \<ge> real_of_int (consecutive_losses_limit r) * 0.6
        then HIGH
      else if real_of_int (consecutive_losses r) \<ge> real_of_int (consecutive_losses_limit r) * 0.3
        then MEDIUM
      else if current_drawdown r \<ge> max_drawdown_percent r then CRITICAL
      else if current_drawdown r \<ge> max_drawdown_percent r * 0.7 then HIGH
      else if current_drawdown r \<ge> max_drawdown_percent r * 0.4 then MEDIUM
      else if daily_pnl r \<le> - emergency_stop_loss r then CRITICAL
      else if daily_pnl r \<le> - emergency_stop_loss r * 0.5 then HIGH
      else if daily_pnl r \<le> - emergency_stop_loss r * 0.2 then MEDIUM
      else LOW)"

text \<open>\<^verbatim>\<open>_check_circuit_breakers\<close>: \<open>all_clear\<close> and the list \<open>triggered\<close>.\<close>

definition check_circuit_breakers :: "RiskManagementService \<Rightarrow> bool \<times> reason list" where
  "check_circuit_breakers r =
     (\<not> (cb_emergency r \<or> cb_consecutive_losses r \<or> cb_drawdown r \<or> cb_frequency r \<or> cb_quality r),
      (if cb_emergency r then [BREAKER_EMERGENCY] else []) @
      (if cb_consecutive_losses r then [BREAKER_CONSECUTIVE_LOSSES (consecutive_losses_limit r)] else []) @
      (if cb_drawdown r then [BREAKER_DRAWDOWN (max_drawdown_percent r)] else []) @
      (if cb_frequency r then [BREAKER_FREQUENCY] else []) @
      (if cb_quality r then [BREAKER_QUALITY] else []))"

text \<open>\<^verbatim>\<open>sum(1 for ts in d if ts > bound)\<close>.\<close>

definition count_after :: "int list \<Rightarrow> int \<Rightarrow> nat" where
  "count_after d bound = length (filter (\<lambda>ts. ts > bound) d)"

text \<open>\<^verbatim>\<open>_check_signal_frequency\<close>: \<open>None\<close> is within the limits, otherwise the reason.\<close>

definition check_signal_frequency ::
  "RiskManagementService \<Rightarrow> Signal \<Rightarrow> int \<Rightarrow> reason option" where
  "check_signal_frequency r signal now =
     (let one_minute_ago = now - seconds 60;
          signals_last_minute = count_after (ts_all r) one_minute_ago
      in if int signals_last_minute \<ge> max_signals_per_minute r then
           Some (FREQUENCY_PER_MINUTE signals_last_minute (max_signals_per_minute r))
         else
           (let one_hour_ago = now - seconds 3600;
                signals_last_hour = count_after (ts_all r) one_hour_ago
            in if int signals_last_hour \<ge> max_signals_per_hour r then
                 Some (FREQUENCY_PER_HOUR signals_last_hour (max_signals_per_hour r))
               else if source signal = CONFLUENCE
                       \<and> int (count_after (ts_confluence r) one_hour_ago) \<ge> max_confluence_per_hour r
               then Some (FREQUENCY_CONFLUENCE (count_after (ts_confluence r) one_hour_ago)
                            (max_confluence_per_hour r))
               else None))"

text \<open>
  \<^verbatim>\<open>_evaluate_signal_quality\<close>: the normalised score, the rating and the improvements.
  The four parts of the score follow the four numbered blocks of the source.
\<close>

definition source_score :: "SignalSource \<Rightarrow> real \<times> recommendation list" where
  "source_score src =
     (if src = CONFLUENCE then (1.5, [])
      else if src = ARBITRAGE then (1.2, [])
      else if src = TAPE_READING then (0.8, [])
      else (0.4, [PREFER_CONFLUENCE]))"

definition level_score :: "SignalLevel \<Rightarrow> real" where
  "level_score l = (if l = ALERT then 0.8 else if l = WARNING then 0.5 else 0.2)"

definition profit_score :: "details \<Rightarrow> real \<times> recommendation list" where
  "profit_score d =
     (if profit_reais d \<noteq> None \<or> profit d \<noteq> None then
        (let p = (case profit_reais d of Some x \<Rightarrow> x
                  | None \<Rightarrow> (case profit d of Some y \<Rightarrow> y | None \<Rightarrow> 0))
         in if p \<ge> 50 then (0.8, [])
            else if p \<ge> 20 then (0.5, [])
            else (0.2, [SEEK_HIGHER_PROFIT]))
      else (0, []))"

definition confirmations_score :: "details \<Rightarrow> real \<times> recommendation list" where
  "confirmations_score d =
     (case confirmations d of
        None \<Rightarrow> (0, [])
      | Some cs \<Rightarrow>
          if length cs \<ge> 3 then (0.7, [])
          else if length cs \<ge> 2 then (0.5, [])
          else (0.2, [AWAIT_CONFIRMATIONS]))"

definition high_quality_patterns :: "string list" where
  "high_quality_patterns =
     [''ESCORA_DETECTADA'', ''DIVERGENCIA_ALTA'', ''DIVERGENCIA_BAIXA'', ''ICEBERG'']"

definition pattern_score :: "details \<Rightarrow> real" where
  "pattern_score d =
     (let pattern = (case original_pattern d of None \<Rightarrow> [] | Some p \<Rightarrow> p)
      in if pattern \<in> set high_quality_patterns then 0.8
         else if pattern \<noteq> [] then 0.4
         else 0)"

definition rating_of :: "real \<Rightarrow> SignalQuality" where
  "rating_of normalized_score =
     (if normalized_score \<ge> 0.8 then EXCELLENT
      else if normalized_score \<ge> 0.6 then GOOD
      else if normalized_score \<ge> 0.4 then FAIR
      else POOR)"

definition evaluate_signal_quality :: "Signal \<Rightarrow> real \<times> SignalQuality \<times> recommendation list" where
  "evaluate_signal_quality signal =
     (let max_score = 1.5 + 0.8 + 1.5 + 0.8;
          score = fst (source_score (source signal)) + level_score (level signal)
                  + fst (profit_score (details signal))
                  + fst (confirmations_score (details signal))
                  + pattern_score (details signal);
          improvements = snd (source_score (source signal))
                         @ snd (profit_score (details signal))
                         @ snd (confirmations_score (details signal));
          normalized_score = (if max_score > 0 then score / max_score else 0)
      in (normalized_score, rating_of normalized_score, improvements))"

text \<open>The hour of the day of \<^verbatim>\<open>datetime.now()\<close>; the epoch is a local midnight.\<close>

definition hour_of :: "int \<Rightarrow> int" where
  "hour_of now = (now div seconds 3600) mod 24"

text \<open>\<^verbatim>\<open>_evaluate_contextual_risk\<close>: the level, the score and the risk factors.\<close>

definition evaluate_contextual_risk ::
  "RiskManagementService \<Rightarrow> Signal \<Rightarrow> int \<Rightarrow> RiskLevel \<times> nat \<times> string list" where
  "evaluate_contextual_risk r signal now =
     (let current_risk_level = calculate_current_risk_level r;
          base = (if current_risk_level = CRITICAL then (3, [''Sistema em risco critico''])
                  else if current_risk_level = HIGH then (2, [''Sistema em risco alto''])
                  else if current_risk_level = MEDIUM then (1, [''Sistema em risco medio''])
                  else (0, []));
          dd = (if current_drawdown r > max_drawdown_percent r * 0.7
                then (2, [''Proximo do drawdown maximo'']) else (0, []));
          cl = (if real_of_int (consecutive_losses r) \<ge> real_of_int (consecutive_losses_limit r) * 0.7
                then (2, [''Muitas perdas consecutivas recentes'']) else (0, []));
          hr = (if hour_of now < 10 \<or> hour_of now > 16
                then (1, [''Horario de menor liquidez'']) else (0, []));
          vol = (case cvd_roc (details signal) of
                   None \<Rightarrow> (0, [])
                 | Some c \<Rightarrow> if \<bar>c\<bar> > 150 then (1, [''Volatilidade extrema detectada''])
                             else (0, []));
          risk_score = fst base + fst dd + fst cl + fst hr + fst vol;
          risk_factors = snd base @ snd dd @ snd cl @ snd hr @ snd vol;
          lvl = (if risk_score \<ge> 4 then CRITICAL
                 else if risk_score \<ge> 3 then HIGH
                 else if risk_score \<ge> 2 then MEDIUM
                 else LOW)
      in (lvl, risk_score, risk_factors))"

definition get_risk_recommendations :: "SignalQuality \<Rightarrow> recommendation list" where
  "get_risk_recommendations rating =
     (if rating = EXCELLENT then [HIGH_QUALITY_SIGNAL]
      else if rating = GOOD then [GOOD_SIGNAL]
      else [])"

text \<open>
  \<^verbatim>\<open>_record_signal_approval\<close>: the only place that appends to the timestamp deques.
  \<^verbatim>\<open>signal.source.value.lower()\<close> is a key of \<^verbatim>\<open>signal_timestamps\<close> for the sources
  CONFLUENCE, ARBITRAGE and TAPE\_READING only.
\<close>

definition record_signal_approval ::
  "RiskManagementService \<Rightarrow> Signal \<Rightarrow> assessment \<Rightarrow> int \<Rightarrow> RiskManagementService" where
  "record_signal_approval r signal a now =
     (let r1 = r\<lparr>total_signals := total_signals r + 1,
                  signals_approved := signals_approved r + 1,
                  ts_all := deque_append 500 (ts_all r) now\<rparr>;
          r2 = (if source signal = CONFLUENCE
                  then r1\<lparr>ts_confluence := deque_append 100 (ts_confluence r1) now\<rparr>
                else if source signal = ARBITRAGE
                  then r1\<lparr>ts_arbitrage := deque_append 200 (ts_arbitrage r1) now\<rparr>
                else if source signal = TAPE_READING
                  then r1\<lparr>ts_tape_reading := deque_append 300 (ts_tape_reading r1) now\<rparr>
                else r1)
      in r2\<lparr>signal_history_rm := deque_append 1000 (signal_history_rm r2) (signal, a, now),
            published_rm := published_rm r2 @ [SIGNAL_APPROVED signal a]\<rparr>)"

definition evaluate_signal ::
  "RiskManagementService \<Rightarrow> Signal \<Rightarrow> int \<Rightarrow> (bool \<times> assessment) \<times> RiskManagementService" where
  "evaluate_signal r signal now =
     (let a0 = \<lparr>approved = False, risk_level = LOW, quality = POOR, reasons = [],
                recommendations = [], timestamp_as = now\<rparr>;
          cb_check = check_circuit_breakers r
      in if \<not> fst cb_check then
           ((False, a0\<lparr>approved := False, risk_level := CRITICAL,
                       reasons := reasons a0 @ snd cb_check\<rparr>), r)
         else
           (case check_signal_frequency r signal now of
              Some why \<Rightarrow>
                ((False, a0\<lparr>approved := False, risk_level := HIGH,
                            reasons := reasons a0 @ [why]\<rparr>), r)
            | None \<Rightarrow>
                (let q = evaluate_signal_quality signal;
                     a1 = a0\<lparr>quality := fst (snd q)\<rparr>
                 in if fst q < signal_quality_threshold r then
                      ((False, a1\<lparr>approved := False, risk_level := MEDIUM,
                                  reasons := reasons a1 @ [INSUFFICIENT_QUALITY (fst q)],
                                  recommendations := snd (snd q)\<rparr>), r)
                    else
                      (let context_risk = evaluate_contextual_risk r signal now;
                           a2 = a1\<lparr>risk_level := fst context_risk\<rparr>
                       in if fst context_risk \<in> set [HIGH, CRITICAL] then
                            ((False, a2\<lparr>approved := False,
                                        reasons := reasons a2 @ [CONTEXTUAL_RISK (snd (snd context_risk))]\<rparr>), r)
                          else
                            (let a3 = a2\<lparr>approved := True,
                                          recommendations := get_risk_recommendations (fst (snd q))\<rparr>
                             in ((True, a3), record_signal_approval r signal a3 now))))))"

text \<open>\<^verbatim>\<open>_handle_signal_generated\<close>, the subscriber of SIGNAL\_GENERATED.\<close>

definition handle_signal_generated ::
  "RiskManagementService \<Rightarrow> Signal \<Rightarrow> int \<Rightarrow> RiskManagementService" where
  "handle_signal_generated r signal now =
     (case evaluate_signal r signal now of
        ((ok, a), r') \<Rightarrow>
          if \<not> ok then
            r'\<lparr>signals_rejected := signals_rejected r' + 1,
               published_rm := published_rm r' @ [SIGNAL_REJECTED signal a]\<rparr>
          else r')"

text \<open>\<^verbatim>\<open>_handle_trade_executed\<close> and \<^verbatim>\<open>_handle_market_update\<close> only log.\<close>

definition handle_trade_executed :: "RiskManagementService \<Rightarrow> RiskManagementService" where
  "handle_trade_executed r = r"

definition handle_market_update_rm :: "RiskManagementService \<Rightarrow> RiskManagementService" where
  "handle_market_update_rm r = r"

definition update_circuit_breakers :: "RiskManagementService \<Rightarrow> RiskManagementService" where
  "update_circuit_breakers r =
     r\<lparr>cb_consecutive_losses := (consecutive_losses r \<ge> consecutive_losses_limit r),
       cb_drawdown := (current_drawdown r \<ge> max_drawdown_percent r),
       cb_emergency := (daily_pnl r \<le> - emergency_stop_loss r)\<rparr>"

text \<open>
  \<^verbatim>\<open>_handle_trade_closed\<close>; the argument is \<^verbatim>\<open>trade_result.get('pnl')\<close>, absent as
  \<open>None\<close>.
\<close>

definition handle_trade_closed :: "RiskManagementService \<Rightarrow> real option \<Rightarrow> RiskManagementService" where
  "handle_trade_closed r trade_pnl =
     (let p = (case trade_pnl of None \<Rightarrow> 0 | Some x \<Rightarrow> x);
          r1 = r\<lparr>daily_pnl := daily_pnl r + p\<rparr>;
          r2 = (if daily_pnl r1 > peak_pnl r1 then r1\<lparr>peak_pnl := daily_pnl r1\<rparr> else r1);
          drawdown = peak_pnl r2 - daily_pnl r2;
          drawdown_pct = (if peak_pnl r2 > 0 then drawdown / peak_pnl r2 * 100 else 0);
          r3 = r2\<lparr>current_drawdown := drawdown_pct\<rparr>;
          r4 = (if p < 0 then r3\<lparr>consecutive_losses := consecutive_losses r3 + 1\<rparr>
                else r3\<lparr>consecutive_losses := 0\<rparr>)
      in update_circuit_breakers r4)"

definition reset_daily_metrics :: "RiskManagementService \<Rightarrow> int \<Rightarrow> RiskManagementService" where
  "reset_daily_metrics r now =
     (let cutoff = now - seconds (24 * 3600)
      in r\<lparr>daily_pnl := 0, peak_pnl := 0, current_drawdown := 0,
           cb_emergency := False,
           ts_all := filter (\<lambda>ts. ts > cutoff) (ts_all r),
           ts_confluence := filter (\<lambda>ts. ts > cutoff) (ts_confluence r),
           ts_arbitrage := filter (\<lambda>ts. ts > cutoff) (ts_arbitrage r),
           ts_tape_reading := filter (\<lambda>ts. ts > cutoff) (ts_tape_reading r)\<rparr>)"

text \<open>\<^verbatim>\<open>circuit_breakers[breaker]\<close> for the five keys of the dictionary.\<close>

definition breaker_state :: "RiskManagementService \<Rightarrow> string \<Rightarrow> bool option" where
  "breaker_state r breaker =
     (if breaker = ''frequency'' then Some (cb_frequency r)
      else if breaker = ''quality'' then Some (cb_quality r)
      else if breaker = ''drawdown'' then Some (cb_drawdown r)
      else if breaker = ''consecutive_losses'' then Some (cb_consecutive_losses r)
      else if breaker = ''emergency'' then Some (cb_emergency r)
      else None)"

definition set_breaker :: "RiskManagementService \<Rightarrow> string \<Rightarrow> bool \<Rightarrow> RiskManagementService" where
  "set_breaker r breaker active =
     (if breaker = ''frequency'' then r\<lparr>cb_frequency := active\<rparr>
      else if breaker = ''quality'' then r\<lparr>cb_quality := active\<rparr>
      else if breaker = ''drawdown'' then r\<lparr>cb_drawdown := active\<rparr>
      else if breaker = ''consecutive_losses'' then r\<lparr>cb_consecutive_losses := active\<rparr>
      else if breaker = ''emergency'' then r\<lparr>cb_emergency := active\<rparr>
      else r)"

definition manual_override ::
  "RiskManagementService \<Rightarrow> string \<Rightarrow> bool \<Rightarrow> string \<Rightarrow> int \<Rightarrow> RiskManagementService" where
  "manual_override r breaker active why now =
     (case breaker_state r breaker of
        None \<Rightarrow> r
      | Some old_state \<Rightarrow>
          (let r1 = set_breaker r breaker active
           in r1\<lparr>published_rm := published_rm r1 @ [RISK_OVERRIDE breaker old_state active why now]\<rparr>))"

text \<open>
  The events that reach the service, and the run of a list of them.  The clock of each
  event is part of the event.
\<close>

datatype risk_input =
  EvaluateSignal Signal int
| SignalGenerated Signal int
| TradeExecuted
| TradeClosed "real option"
| MarketDataUpdated
| DailyReset int
| ManualOverride string bool string int

fun risk_step :: "RiskManagementService \<Rightarrow> risk_input \<Rightarrow> RiskManagementService" where
  "risk_step r (EvaluateSignal s now) = snd (evaluate_signal r s now)"
| "risk_step r (SignalGenerated s now) = handle_signal_generated r s now"
| "risk_step r TradeExecuted = handle_trade_executed r"
| "risk_step r (TradeClosed p) = handle_trade_closed r p"
| "risk_step r MarketDataUpdated = handle_market_update_rm r"
| "risk_step r (DailyReset now) = reset_daily_metrics r now"
| "risk_step r (ManualOverride b a why now) = manual_override r b a why now"

text \<open>The inputs that the breaker-safety property names as the ones that clear a breaker.\<close>

fun is_reset_or_override :: "risk_input \<Rightarrow> bool" where
  "is_reset_or_override (DailyReset _) = True"
| "is_reset_or_override (ManualOverride _ _ _ _) = True"
| "is_reset_or_override _ = False"

fun is_trade_closed :: "risk_input \<Rightarrow> bool" where
  "is_trade_closed (TradeClosed _) = True"
| "is_trade_closed _ = False"

text \<open>The dictionary \<^verbatim>\<open>signal_timestamps\<close> as a whole.\<close>

definition signal_timestamps ::
  "RiskManagementService \<Rightarrow> int list \<times> int list \<times> int list \<times> int list" where
  "signal_timestamps r = (ts_all r, ts_confluence r, ts_arbitrage r, ts_tape_reading r)"

text \<open>
  A caller that has a stream of candidates evaluated one after the other, each at its
  own clock value: the verdicts in order and the service afterwards.
\<close>

fun evaluate_stream ::
  "RiskManagementService \<Rightarrow> (Signal \<times> int) list \<Rightarrow> bool list \<times> RiskManagementService" where
  "evaluate_stream r [] = ([], r)"
| "evaluate_stream r ((s, now) # rest) =
     (case evaluate_signal r s now of
        ((ok, a), r1) \<Rightarrow>
          (case evaluate_stream r1 rest of (oks, r2) \<Rightarrow> (ok # oks, r2)))"

section \<open>application/services/position\_manager.py\<close>

text \<open>
  A position.  \<^verbatim>\<open>status\<close> and \<^verbatim>\<open>exit_reason\<close> are the strings of the source.
\<close>

record Position =
  id_p :: string
  signal_id_p :: string
  symbol_p :: string
  direction_p :: string
  entry_price_p :: real
  entry_time :: int
  size_p :: int
  stop_loss_p :: real
  targets_p :: "real list"
  current_price :: real
  pnl_p :: real
  pnl_points :: real
  status :: string
  exit_price_p :: "real option"
  exit_time_p :: "int option"
  exit_reason :: "string option"
  max_profit :: real
  max_loss :: real
  warnings_received :: "string list"

definition update_price :: "Position \<Rightarrow> real \<Rightarrow> Position" where
  "update_price p price =
     (let p1 = p\<lparr>current_price := price\<rparr>;
          p2 = (if direction_p p1 = ''COMPRA''
                then p1\<lparr>pnl_points := price - entry_price_p p1\<rparr>
                else p1\<lparr>pnl_points := entry_price_p p1 - price\<rparr>);
          p3 = p2\<lparr>pnl_p := pnl_points p2 * real_of_int (size_p p2) * 10\<rparr>
      in p3\<lparr>max_profit := max (max_profit p3) (pnl_p p3),
            max_loss := min (max_loss p3) (pnl_p p3)\<rparr>)"

definition should_stop :: "Position \<Rightarrow> bool" where
  "should_stop p =
     (if direction_p p = ''COMPRA'' then current_price p \<le> stop_loss_p p
      else current_price p \<ge> stop_loss_p p)"

text \<open>\<^verbatim>\<open>check_targets\<close>: the index of the first target reached, counted from \<open>i\<close>.\<close>

fun check_targets_from :: "Position \<Rightarrow> nat \<Rightarrow> real list \<Rightarrow> nat option" where
  "check_targets_from p i [] = None"
| "check_targets_from p i (target # ts) =
     (if direction_p p = ''COMPRA'' then
        (if current_price p \<ge> target then Some i else check_targets_from p (Suc i) ts)
      else
        (if current_price p \<le> target then Some i else check_targets_from p (Suc i) ts))"

definition check_targets :: "Position \<Rightarrow> nat option" where
  "check_targets p = check_targets_from p 0 (targets_p p)"

datatype pm_event =
  POSITION_OPENED Position StrategicSignal
| POSITION_CLOSED Position string real

text \<open>
  The manager.  \<^verbatim>\<open>positions\<close> is a dictionary whose iteration order the handlers depend
  on: an association list in insertion order.
\<close>

record PositionManager =
  max_positions :: int
  default_size :: int
  auto_manage :: bool
  trailing_stop_enabled :: bool
  trailing_stop_distance :: real
  positions :: "(string \<times> Position) list"
  signal_to_position :: "string \<rightharpoonup> string"
  closed_positions :: "Position list"
  total_opened :: nat
  total_closed :: nat
  total_stopped_pm :: nat
  total_target_hit :: nat
  total_pnl :: real
  win_count :: nat
  loss_count :: nat
  published_pm :: "pm_event list"

text \<open>\<^verbatim>\<open>__init__\<close> with the default configuration.\<close>

definition init_position_manager :: PositionManager where
  "init_position_manager =
     \<lparr>max_positions = 3, default_size = 1, auto_manage = True,
      trailing_stop_enabled = False, trailing_stop_distance = 10.0,
      positions = [], signal_to_position = Map.empty, closed_positions = [],
      total_opened = 0, total_closed = 0, total_stopped_pm = 0, total_target_hit = 0,
      total_pnl = 0, win_count = 0, loss_count = 0, published_pm = []\<rparr>"

definition can_open_position :: "PositionManager \<Rightarrow> bool" where
  "can_open_position pm = (int (length (positions pm)) < max_positions pm)"

text \<open>Python's \<^verbatim>\<open>int(x)\<close> on a float: truncation towards zero.\<close>

definition py_int :: "real \<Rightarrow> int" where
  "py_int x = (if x \<ge> 0 then \<lfloor>x\<rfloor> else \<lceil>x\<rceil>)"

definition calculate_position_size :: "PositionManager \<Rightarrow> StrategicSignal \<Rightarrow> int" where
  "calculate_position_size pm signal =
     (let base_size = default_size pm;
          size1 = (if confidence signal > 0.8 then py_int (real_of_int base_size * 1.5)
                   else if confidence signal < 0.6 then max 1 (py_int (real_of_int base_size * 0.7))
                   else base_size)
      in if setup_type signal = REVERSAL_VIOLENT then max 1 (py_int (real_of_int size1 * 0.8))
         else if setup_type signal = BREAKOUT_IGNITION then py_int (real_of_int size1 * 1.2)
         else size1)"

text \<open>The decimal digits of a natural number.\<close>

fun digits :: "nat \<Rightarrow> string" where
  "digits n =
     (if n < 10 then [char_of (48 + n)]
      else digits (n div 10) @ [char_of (48 + n mod 10)])"

declare digits.simps [simp del]

text \<open>
  \<^verbatim>\<open>datetime.now().strftime('%Y%m%d_%H%M%S')\<close> names the second of \<open>now\<close>.  The model
  writes the count of whole seconds since the epoch instead of the calendar date: two
  clock values get the same stamp exactly when they lie in the same second.
\<close>

definition strftime_second :: "int \<Rightarrow> string" where
  "strftime_second now = digits (nat (now div 1000000))"

text \<open>\<^verbatim>\<open>a or b\<close> on an optional float and a float.\<close>

definition or_else :: "real option \<Rightarrow> real \<Rightarrow> real" where
  "or_else a b = (case a of None \<Rightarrow> b | Some x \<Rightarrow> if x \<noteq> 0 then x else b)"

definition open_position :: "PositionManager \<Rightarrow> StrategicSignal \<Rightarrow> int \<Rightarrow> PositionManager" where
  "open_position pm signal now =
     (if \<not> can_open_position pm then pm
      else
        (let position_id = ''POS_'' @ symbol signal @ ''_'' @ strftime_second now;
             position = \<lparr>id_p = position_id, signal_id_p = sig_id signal,
                         symbol_p = symbol signal, direction_p = direction signal,
                         entry_price_p = or_else (execution_price signal) (entry_price signal),
                         entry_time = now,
                         size_p = calculate_position_size pm signal,
                         stop_loss_p = stop_loss signal, targets_p = targets signal,
                         current_price = or_else (execution_price signal) (entry_price signal),
                         pnl_p = 0, pnl_points = 0, status = ''OPEN'',
                         exit_price_p = None, exit_time_p = None, exit_reason = None,
                         max_profit = 0, max_loss = 0, warnings_received = []\<rparr>
         in pm\<lparr>positions := AList.update position_id position (positions pm),
                signal_to_position := (signal_to_position pm)(sig_id signal \<mapsto> position_id),
                total_opened := total_opened pm + 1,
                published_pm := published_pm pm @ [POSITION_OPENED position signal]\<rparr>))"

text \<open>
  A position object that a handler mutates is the object stored in \<^verbatim>\<open>positions\<close>, so a
  mutation is written back under the position's id when that id is a key.
\<close>

definition write_back :: "PositionManager \<Rightarrow> Position \<Rightarrow> PositionManager" where
  "write_back pm p = pm\<lparr>positions := AList.map_entry (id_p p) (\<lambda>_. p) (positions pm)\<rparr>"

text \<open>
  \<^verbatim>\<open>_close_position\<close>.  The result is the exception that leaves the function, if any,
  and the state at that moment: \<^verbatim>\<open>update_price(None)\<close> raises \<^verbatim>\<open>TypeError\<close> after the exit
  fields are set, and \<^verbatim>\<open>del self.positions[position.id]\<close> raises \<^verbatim>\<open>KeyError\<close> on an absent
  key.  On the \<^verbatim>\<open>TypeError\<close> path the source has already assigned \<^verbatim>\<open>None\<close> to
  \<^verbatim>\<open>current_price\<close>; the field is a \<open>real\<close> here and keeps its old value.
\<close>

definition close_position ::
  "PositionManager \<Rightarrow> Position \<Rightarrow> string \<Rightarrow> real option \<Rightarrow> int
     \<Rightarrow> py_error option \<times> PositionManager" where
  "close_position pm position why exit_price' now =
     (let p1 = position\<lparr>exit_price_p := exit_price', exit_time_p := Some now,
                        exit_reason := Some why,
                        status := (if why = ''STOP_LOSS'' then ''STOPPED'' else ''CLOSED'')\<rparr>
      in case exit_price' of
           None \<Rightarrow> (Some TypeError, write_back pm p1)
         | Some price \<Rightarrow>
             (let p2 = update_price p1 price in
              if map_of (positions pm) (id_p p2) = None then (Some KeyError, pm)
              else
                (let pm1 = pm\<lparr>positions := AList.delete (id_p p2) (positions pm)\<rparr>;
                     pm2 = (if signal_to_position pm1 (signal_id_p p2) \<noteq> None
                            then pm1\<lparr>signal_to_position :=
                                       (signal_to_position pm1)(signal_id_p p2 := None)\<rparr>
                            else pm1);
                     pm3 = pm2\<lparr>closed_positions := deque_append 100 (closed_positions pm2) p2,
                               total_closed := total_closed pm2 + 1,
                               total_pnl := total_pnl pm2 + pnl_p p2\<rparr>;
                     pm4 = (if why = ''STOP_LOSS''
                              then pm3\<lparr>total_stopped_pm := total_stopped_pm pm3 + 1\<rparr>
                            else if take 6 why = ''TARGET''
                              then pm3\<lparr>total_target_hit := total_target_hit pm3 + 1\<rparr>
                            else pm3);
                     pm5 = (if pnl_p p2 > 0 then pm4\<lparr>win_count := win_count pm4 + 1\<rparr>
                            else pm4\<lparr>loss_count := loss_count pm4 + 1\<rparr>)
                 in (None, pm5\<lparr>published_pm := published_pm pm5 @
                                   [POSITION_CLOSED p2 why (pnl_p p2)]\<rparr>))))"

text \<open>
  \<^verbatim>\<open>_handle_signal_state_changed\<close>; the arguments are the entries \<^verbatim>\<open>signal_id\<close>,
  \<^verbatim>\<open>new_state\<close> and \<^verbatim>\<open>signal\<close> of the event.
\<close>

definition handle_signal_state_changed ::
  "PositionManager \<Rightarrow> string \<Rightarrow> SignalState \<Rightarrow> StrategicSignal option \<Rightarrow> int
     \<Rightarrow> py_error option \<times> PositionManager" where
  "handle_signal_state_changed pm sid new_state signal' now =
     (case signal' of
        None \<Rightarrow> (None, pm)
      | Some signal \<Rightarrow>
          if new_state = EXECUTED \<and> can_open_position pm then (None, open_position pm signal now)
          else
            (case signal_to_position pm sid of
               None \<Rightarrow> (None, pm)
             | Some position_id \<Rightarrow>
                 (case map_of (positions pm) position_id of
                    None \<Rightarrow> (None, pm)
                  | Some position \<Rightarrow>
                      if new_state = STOPPED then
                        close_position pm position ''SIGNAL_STOPPED'' (exit_price signal) now
                      else if new_state = TARGET_HIT then
                        close_position pm position ''TARGET_HIT'' (exit_price signal) now
                      else (None, pm))))"

definition handle_signal_expired ::
  "PositionManager \<Rightarrow> StrategicSignal option \<Rightarrow> int \<Rightarrow> py_error option \<times> PositionManager" where
  "handle_signal_expired pm signal' now =
     (case signal' of
        None \<Rightarrow> (None, pm)
      | Some signal \<Rightarrow>
          (case signal_to_position pm (sig_id signal) of
             None \<Rightarrow> (None, pm)
           | Some position_id \<Rightarrow>
               (case map_of (positions pm) position_id of
                  None \<Rightarrow> (None, pm)
                | Some position \<Rightarrow>
                    if pnl_p position < 0 then
                      close_position pm position ''SIGNAL_EXPIRED'' (Some (current_price position)) now
                    else (None, pm))))"

text \<open>
  The loop of \<^verbatim>\<open>_handle_divergence_warning\<close> over \<^verbatim>\<open>self.positions.values()\<close>.
  \<^verbatim>\<open>_close_position\<close> deletes from the dictionary that is being iterated, so after a close
  the next step of the iterator raises \<^verbatim>\<open>RuntimeError\<close> (also when no entry is left):
  the loop ends there, with the positions behind the closed one untouched.  The list
  argument is what the iterator has still to visit.
\<close>

fun divergence_loop ::
  "PositionManager \<Rightarrow> string \<Rightarrow> string \<Rightarrow> string \<Rightarrow> int \<Rightarrow> (string \<times> Position) list
     \<Rightarrow> py_error option \<times> PositionManager" where
  "divergence_loop pm symb dir warning now [] = (None, pm)"
| "divergence_loop pm symb dir warning now ((k, position) # rest) =
     (if symbol_p position = symb \<and> direction_p position = dir then
        (let p1 = position\<lparr>warnings_received := warnings_received position @ [warning]\<rparr>;
             pm1 = pm\<lparr>positions := AList.map_entry k (\<lambda>_. p1) (positions pm)\<rparr>
         in if length (warnings_received p1) \<ge> 2 \<and> auto_manage pm1 then
              (case close_position pm1 p1 ''MULTIPLE_WARNINGS'' (Some (current_price p1)) now of
                 (Some e, pm2) \<Rightarrow> (Some e, pm2)
               | (None, pm2) \<Rightarrow> (Some RuntimeError, pm2))
            else divergence_loop pm1 symb dir warning now rest)
      else divergence_loop pm symb dir warning now rest)"

definition handle_divergence_warning ::
  "PositionManager \<Rightarrow> Signal \<Rightarrow> int \<Rightarrow> py_error option \<times> PositionManager" where
  "handle_divergence_warning pm signal now =
     (case divergence_event (details signal) of
        None \<Rightarrow> (None, pm)
      | Some ev \<Rightarrow>
          (let symb = symbol_dv ev;
               dir = (if direction_dv ev = ''BULLISH'' then ''VENDA'' else ''COMPRA'')
           in divergence_loop pm symb dir (''DIVERGENCE_'' @ direction_dv ev) now (positions pm)))"

definition tighten_stop_p :: "Position \<Rightarrow> real \<Rightarrow> Position" where
  "tighten_stop_p p factor =
     (if direction_p p = ''COMPRA'' then
        p\<lparr>stop_loss_p := max (stop_loss_p p)
             (entry_price_p p - (entry_price_p p - stop_loss_p p) * factor)\<rparr>
      else
        p\<lparr>stop_loss_p := min (stop_loss_p p)
             (entry_price_p p + (stop_loss_p p - entry_price_p p) * factor)\<rparr>)"

text \<open>\<^verbatim>\<open>_handle_manipulation_warning\<close>; the argument is \<^verbatim>\<open>data.get('symbol')\<close>.\<close>

definition handle_manipulation_warning :: "PositionManager \<Rightarrow> string option \<Rightarrow> PositionManager" where
  "handle_manipulation_warning pm symbol' =
     (case symbol' of
        None \<Rightarrow> pm
      | Some symb \<Rightarrow>
          if symb = [] then pm
          else pm\<lparr>positions :=
                    map (\<lambda>(k, p).
                          if symbol_p p = symb then
                            (let p1 = p\<lparr>warnings_received := warnings_received p @ [''MANIPULATION_RISK'']\<rparr>
                             in (k, if auto_manage pm then tighten_stop_p p1 0.5 else p1))
                          else (k, p))
                        (positions pm)\<rparr>)"

definition update_trailing_stop :: "PositionManager \<Rightarrow> Position \<Rightarrow> Position" where
  "update_trailing_stop pm p =
     (if direction_p p = ''COMPRA'' then
        (let new_stop = current_price p - trailing_stop_distance pm
         in if new_stop > stop_loss_p p then p\<lparr>stop_loss_p := new_stop\<rparr> else p)
      else
        (let new_stop = current_price p + trailing_stop_distance pm
         in if new_stop < stop_loss_p p then p\<lparr>stop_loss_p := new_stop\<rparr> else p))"

text \<open>
  \<^verbatim>\<open>_handle_market_update\<close>.  The market data is, for each symbol entry, the list of its
  trades as pairs of symbol and price.  The inner loop runs over a copy of the matching
  positions; an exception of \<^verbatim>\<open>_close_position\<close> ends the handler.
\<close>

fun check_positions ::
  "PositionManager \<Rightarrow> real \<Rightarrow> int \<Rightarrow> Position list \<Rightarrow> py_error option \<times> PositionManager" where
  "check_positions pm price now [] = (None, pm)"
| "check_positions pm price now (position # rest) =
     (let p1 = update_price position price;
          pm1 = write_back pm p1
      in if should_stop p1 then
           (case close_position pm1 p1 ''STOP_LOSS'' (Some price) now of
              (Some e, pm2) \<Rightarrow> (Some e, pm2)
            | (None, pm2) \<Rightarrow> check_positions pm2 price now rest)
         else
           (case check_targets p1 of
              Some target_hit \<Rightarrow>
                (case close_position pm1 p1 (''TARGET_'' @ digits (target_hit + 1)) (Some price) now of
                   (Some e, pm2) \<Rightarrow> (Some e, pm2)
                 | (None, pm2) \<Rightarrow> check_positions pm2 price now rest)
            | None \<Rightarrow>
                if trailing_stop_enabled pm1 \<and> pnl_points p1 > trailing_stop_distance pm1 then
                  check_positions (write_back pm1 (update_trailing_stop pm1 p1)) price now rest
                else check_positions pm1 price now rest))"

fun handle_market_update ::
  "PositionManager \<Rightarrow> (string \<times> real) list list \<Rightarrow> int \<Rightarrow> py_error option \<times> PositionManager" where
  "handle_market_update pm [] now = (None, pm)"
| "handle_market_update pm (trades # rest) now =
     (if trades = [] then handle_market_update pm rest now
      else
        (let symb = fst (hd trades);
             price = snd (last trades);
             positions_to_check = filter (\<lambda>p. symbol_p p = symb) (map snd (positions pm))
         in case check_positions pm price now positions_to_check of
              (Some e, pm1) \<Rightarrow> (Some e, pm1)
            | (None, pm1) \<Rightarrow> handle_market_update pm1 rest now))"

fun close_each ::
  "PositionManager \<Rightarrow> string \<Rightarrow> int \<Rightarrow> Position list \<Rightarrow> py_error option \<times> PositionManager" where
  "close_each pm why now [] = (None, pm)"
| "close_each pm why now (position # rest) =
     (case close_position pm position why (Some (current_price position)) now of
        (Some e, pm1) \<Rightarrow> (Some e, pm1)
      | (None, pm1) \<Rightarrow> close_each pm1 why now rest)"

definition close_all_positions ::
  "PositionManager \<Rightarrow> string \<Rightarrow> int \<Rightarrow> py_error option \<times> PositionManager" where
  "close_all_positions pm why now = close_each pm why now (map snd (positions pm))"

definition handle_risk_override ::
  "PositionManager \<Rightarrow> string \<Rightarrow> bool \<Rightarrow> int \<Rightarrow> py_error option \<times> PositionManager" where
  "handle_risk_override pm breaker new_state now =
     (if breaker = ''emergency'' \<and> new_state then close_all_positions pm ''EMERGENCY_STOP'' now
      else (None, pm))"

text \<open>
  Everything that changes the manager: the six subscribed handlers and the public
  \<^verbatim>\<open>close_all_positions\<close>.  The event bus catches what a handler raises, so the run
  goes on from the state the handler left.
\<close>

datatype pm_input =
  SignalStateChanged string SignalState "StrategicSignal option" int
| SignalExpired "StrategicSignal option" int
| DivergenceWarning Signal int
| ManipulationDetected "string option"
| MarketUpdate "(string \<times> real) list list" int
| RiskOverride string bool int
| CloseAll string int

fun pm_step :: "PositionManager \<Rightarrow> pm_input \<Rightarrow> PositionManager" where
  "pm_step pm (SignalStateChanged sid st sg now) = snd (handle_signal_state_changed pm sid st sg now)"
| "pm_step pm (SignalExpired sg now) = snd (handle_signal_expired pm sg now)"
| "pm_step pm (DivergenceWarning sg now) = snd (handle_divergence_warning pm sg now)"
| "pm_step pm (ManipulationDetected symb) = handle_manipulation_warning pm symb"
| "pm_step pm (MarketUpdate md now) = snd (handle_market_update pm md now)"
| "pm_step pm (RiskOverride b st now) = snd (handle_risk_override pm b st now)"
| "pm_step pm (CloseAll why now) = snd (close_all_positions pm why now)"

definition pm_run :: "PositionManager \<Rightarrow> pm_input list \<Rightarrow> PositionManager" where
  "pm_run pm inputs = foldl pm_step pm inputs"

section \<open>domain/entities/book.py\<close>

record BookLevel =
  price_bl :: real
  volume :: int

record OrderBook =
  bids :: "BookLevel list"
  asks :: "BookLevel list"

section \<open>analyzers/confluence/context\_filters.py\<close>

record FilterResult =
  passed :: bool
  score :: real
  adjustments_fr :: adjustments
  warnings :: "filter_warning list"

definition no_adjustments :: adjustments where
  "no_adjustments = \<lparr>reduce_size = None, use_limit_orders = None, widen_stop = None,
                       tighten_stop = None\<rparr>"

text \<open>\<^verbatim>\<open>a.update(b)\<close> on two adjustment dictionaries: the keys of \<open>b\<close> win.\<close>

definition adjustments_update :: "adjustments \<Rightarrow> adjustments \<Rightarrow> adjustments" where
  "adjustments_update a b =
     \<lparr>reduce_size = (case reduce_size b of None \<Rightarrow> reduce_size a | Some x \<Rightarrow> Some x),
      use_limit_orders = (case use_limit_orders b of None \<Rightarrow> use_limit_orders a | Some x \<Rightarrow> Some x),
      widen_stop = (case widen_stop b of None \<Rightarrow> widen_stop a | Some x \<Rightarrow> Some x),
      tighten_stop = (case tighten_stop b of None \<Rightarrow> tighten_stop a | Some x \<Rightarrow> Some x)\<rparr>"

text \<open>The context that \<^verbatim>\<open>apply_all\<close> reads: the entries \<^verbatim>\<open>book\<close> and \<^verbatim>\<open>volatility\<close>.\<close>

record filter_context =
  book :: "OrderBook option"
  volatility :: "string option"

datatype filter_recommendation =
  SKIP_FILTERS | PROCEED | PROCEED_CAUTIOUS | WAIT | PROCEED_DISABLED | SKIP_INVALID_PRICES

text \<open>The dictionary that \<^verbatim>\<open>apply_all\<close> returns.\<close>

record filter_results =
  passed_all :: bool
  final_score :: real
  confidence_multiplier :: real
  adjustments_all :: adjustments
  warnings_all :: "filter_warning list"
  recommendation_all :: filter_recommendation

definition check_basic_validity :: "StrategicSignal \<Rightarrow> FilterResult" where
  "check_basic_validity signal =
     (if stop_loss signal \<le> 0 \<or> entry_price signal \<le> 0 then
        \<lparr>passed = False, score = 0.0, adjustments_fr = no_adjustments, warnings = [INVALID_PRICE]\<rparr>
      else if risk_reward signal < 1.0 then
        \<lparr>passed = True, score = 0.6, adjustments_fr = no_adjustments, warnings = [LOW_RISK_REWARD]\<rparr>
      else
        \<lparr>passed = True, score = 1.0, adjustments_fr = no_adjustments, warnings = []\<rparr>)"

definition check_manipulation :: "real \<Rightarrow> OrderBook \<Rightarrow> FilterResult" where
  "check_manipulation manipulation_threshold b =
     (let ok = \<lparr>passed = True, score = 1.0, adjustments_fr = no_adjustments, warnings = []\<rparr> in
      if bids b = [] \<or> asks b = [] then ok
      else
        (let bid_volume = sum_list (map volume (take 5 (bids b)));
             ask_volume = sum_list (map volume (take 5 (asks b)))
         in if bid_volume = 0 \<or> ask_volume = 0 then ok
            else
              (let imbalance_ratio = max (real_of_int bid_volume / real_of_int ask_volume)
                                         (real_of_int ask_volume / real_of_int bid_volume)
               in if imbalance_ratio > manipulation_threshold then
                    \<lparr>passed = True, score = 0.5,
                     adjustments_fr = no_adjustments\<lparr>reduce_size := Some 0.7,
                                                       use_limit_orders := Some True\<rparr>,
                     warnings = [BOOK_IMBALANCE (if bid_volume > ask_volume then ''compra'' else ''venda'')
                                   imbalance_ratio]\<rparr>
                  else ok)))"

definition adjust_for_volatility :: "string \<Rightarrow> FilterResult" where
  "adjust_for_volatility v =
     \<lparr>passed = True,
      score = (if v \<in> set [''HIGH'', ''EXTREME''] then 0.8 else 1.0),
      adjustments_fr =
        (if v = ''HIGH'' then no_adjustments\<lparr>widen_stop := Some 1.3, reduce_size := Some 0.8\<rparr>
         else if v = ''EXTREME'' then no_adjustments\<lparr>widen_stop := Some 1.5, reduce_size := Some 0.6\<rparr>
         else if v = ''LOW'' then no_adjustments\<lparr>tighten_stop := Some 0.8\<rparr>
         else no_adjustments),
      warnings = []\<rparr>"

definition get_recommendation :: "bool \<Rightarrow> real \<Rightarrow> filter_recommendation" where
  "get_recommendation ok sc =
     (if \<not> ok then SKIP_FILTERS
      else if sc \<ge> 0.8 then PROCEED
      else if sc \<ge> 0.6 then PROCEED_CAUTIOUS
      else WAIT)"

text \<open>
  \<^verbatim>\<open>apply_all\<close>; the first two arguments are the attributes \<^verbatim>\<open>enabled\<close> and
  \<^verbatim>\<open>manipulation_threshold\<close> of the filter object.  \<open>results\<close> is the list of the values
  of the dictionary \<^verbatim>\<open>results\<close>, which always holds the basic result.
\<close>

definition apply_all :: "bool \<Rightarrow> real \<Rightarrow> StrategicSignal \<Rightarrow> filter_context \<Rightarrow> filter_results" where
  "apply_all enabled manipulation_threshold signal context =
     (if \<not> enabled then
        \<lparr>passed_all = True, final_score = 1.0, confidence_multiplier = 1.0,
         adjustments_all = no_adjustments, warnings_all = [],
         recommendation_all = PROCEED_DISABLED\<rparr>
      else
        (let basic_result = check_basic_validity signal in
         if \<not> passed basic_result then
           \<lparr>passed_all = False, final_score = 0.0, confidence_multiplier = 0.5,
            adjustments_all = no_adjustments, warnings_all = warnings basic_result,
            recommendation_all = SKIP_INVALID_PRICES\<rparr>
         else
           (let manip = (case book context of
                           None \<Rightarrow> []
                         | Some b \<Rightarrow> [check_manipulation manipulation_threshold b]);
                vol = (case volatility context of
                         None \<Rightarrow> []
                       | Some v \<Rightarrow> if v = [] then [] else [adjust_for_volatility v]);
                results = basic_result # manip @ vol;
                warnings' = concat (map warnings manip);
                adjustments' = foldl adjustments_update no_adjustments
                                 (map adjustments_fr (manip @ vol));
                total_score = sum_list (map score results) / real (length results);
                ok = (total_score \<ge> 0.5 \<and> \<not> (\<exists>r \<in> set results. score r < 0.3))
            in \<lparr>passed_all = ok, final_score = total_score,
                confidence_multiplier = min (max total_score 0.5) 1.0,
                adjustments_all = adjustments', warnings_all = take 3 warnings',
                recommendation_all = get_recommendation ok total_score\<rparr>)))"

section \<open>application/services/strategic\_signal\_service.py\<close>

text \<open>
  \<^verbatim>\<open>confluence_config\<close> is written once, in \<^verbatim>\<open>__init__\<close>, with these values.
\<close>

definition timeout_seconds :: int where
  "timeout_seconds = 10"

definition price_divergence_max :: real where
  "price_divergence_max = 0.0005"

definition confidence_boost :: real where
  "confidence_boost = 0.15"

definition confidence_penalty :: real where
  "confidence_penalty = 0.20"

datatype confluence_details =
  WAITING_PAIR
| OPPOSITE_DIRECTIONS string string
| PRICE_DIVERGENCE real
| INCOMPATIBLE_SETUPS SetupType SetupType
| TIME_SKEW int
| PERFECT_MATCH real int

text \<open>The display signal of \<^verbatim>\<open>_emit_strategic_signal\<close>: its level and the signal it shows.\<close>

datatype ss_event = SIGNAL_GENERATED SignalLevel StrategicSignal

text \<open>
  The service.  A slot of \<^verbatim>\<open>pending_confluence\<close> holds the candidate and its arrival
  time.  The slot refers to the signal object, which the service goes on to change; the
  model stores the signal as it is at that moment, and \<^verbatim>\<open>_analyze_confluence\<close> reads
  only fields that are not changed afterwards (direction, entry price, setup type,
  timestamp).  \<^verbatim>\<open>last_market_data\<close> keeps the books by symbol, the only part that
  \<^verbatim>\<open>_build_context\<close> reads.
\<close>

record StrategicSignalService =
  lifecycle_manager :: SetupLifecycleManager
  filters_enabled :: bool
  manipulation_threshold_cf :: real
  pending_confluence :: "string \<rightharpoonup> StrategicSignal \<times> int"
  last_market_data :: "(string \<rightharpoonup> OrderBook) option"
  signals_created :: nat
  signals_filtered :: nat
  confluence_matches :: nat
  confluence_conflicts :: nat
  signals_executed :: nat
  published_ss :: "ss_event list"

definition init_strategic_service :: "SetupLifecycleManager \<Rightarrow> StrategicSignalService" where
  "init_strategic_service lm =
     \<lparr>lifecycle_manager = lm, filters_enabled = True, manipulation_threshold_cf = 5.0,
      pending_confluence = Map.empty, last_market_data = None,
      signals_created = 0, signals_filtered = 0, confluence_matches = 0,
      confluence_conflicts = 0, signals_executed = 0, published_ss = []\<rparr>"

definition determine_entry_type :: "SetupType \<Rightarrow> EntryType" where
  "determine_entry_type st =
     (if st = REVERSAL_VIOLENT then MARKET
      else if st \<in> set [REVERSAL_SLOW, PULLBACK_REJECTION] then LIMIT
      else if st = BREAKOUT_IGNITION then STOP
      else ADAPTIVE)"

text \<open>
  \<^verbatim>\<open>_build_context\<close>: the book of the symbol in the last market data, if any.  The
  dictionary it builds has no key \<^verbatim>\<open>volatility\<close> (the volatility sits inside
  \<^verbatim>\<open>regime_info\<close>), so \<^verbatim>\<open>context.get('volatility')\<close> is \<^verbatim>\<open>None\<close>.  The regime summary
  comes from the regime detector, which the filters do not read.
\<close>

definition build_context :: "StrategicSignalService \<Rightarrow> string \<Rightarrow> filter_context" where
  "build_context svc symb =
     \<lparr>book = (case last_market_data svc of None \<Rightarrow> None | Some md \<Rightarrow> md symb),
      volatility = None\<rparr>"

text \<open>
  \<^verbatim>\<open>timedelta.seconds\<close> of a difference of two clock values: the seconds field of the
  normalised timedelta, between 0 and 86399, without the days and the microseconds.
\<close>

definition timedelta_seconds :: "int \<Rightarrow> int" where
  "timedelta_seconds d = (d div 1000000) mod 86400"

definition compatible_setups :: "SetupType \<rightharpoonup> SetupType list" where
  "compatible_setups =
     [REVERSAL_SLOW \<mapsto> [REVERSAL_SLOW, DIVERGENCE_SETUP],
      REVERSAL_VIOLENT \<mapsto> [REVERSAL_VIOLENT, REVERSAL_SLOW],
      BREAKOUT_IGNITION \<mapsto> [BREAKOUT_IGNITION, PULLBACK_REJECTION],
      PULLBACK_REJECTION \<mapsto> [PULLBACK_REJECTION, BREAKOUT_IGNITION],
      DIVERGENCE_SETUP \<mapsto> [DIVERGENCE_SETUP, REVERSAL_SLOW]]"

definition analyze_confluence ::
  "StrategicSignal \<Rightarrow> StrategicSignal \<Rightarrow> ConflictStatus \<times> confluence_details" where
  "analyze_confluence signal1 signal2 =
     (if direction signal1 \<noteq> direction signal2 then
        (MAJOR_CONFLICT, OPPOSITE_DIRECTIONS (direction signal1) (direction signal2))
      else
        (let price_diff = \<bar>entry_price signal1 - entry_price signal2\<bar>;
             avg_price = (entry_price signal1 + entry_price signal2) / 2;
             price_divergence = (if avg_price > 0 then price_diff / avg_price else 0)
         in if price_divergence > price_divergence_max then
              (MINOR_CONFLICT, PRICE_DIVERGENCE price_divergence)
            else if setup_type signal2 \<notin> set (dict_get compatible_setups (setup_type signal1) []) then
              (MINOR_CONFLICT, INCOMPATIBLE_SETUPS (setup_type signal1) (setup_type signal2))
            else
              (let time_diff = \<bar>timestamp signal1 - timestamp signal2\<bar>
               in if time_diff > seconds 30 then (MINOR_CONFLICT, TIME_SKEW time_diff)
                  else (NO_CONFLICT, PERFECT_MATCH price_divergence time_diff))))"

text \<open>
  \<^verbatim>\<open>_check_confluence\<close>.  The two calls of \<^verbatim>\<open>datetime.now()\<close> (for the age of the other
  slot and for the arrival time of the new one) get the same clock value.
\<close>

definition check_confluence ::
  "StrategicSignalService \<Rightarrow> StrategicSignal \<Rightarrow> int
     \<Rightarrow> (ConflictStatus \<times> confluence_details) \<times> StrategicSignalService" where
  "check_confluence svc signal now =
     (let other_symbol = (if symbol signal = ''WDO'' then ''DOL'' else ''WDO'');
          store = (\<lambda>s. ((NO_CONFLICT, WAITING_PAIR),
                         s\<lparr>pending_confluence := (pending_confluence s)(symbol signal \<mapsto> (signal, now))\<rparr>))
      in case pending_confluence svc other_symbol of
           None \<Rightarrow> store svc
         | Some (other_signal, other_timestamp) \<Rightarrow>
             if timedelta_seconds (now - other_timestamp) > timeout_seconds then
               store (svc\<lparr>pending_confluence := (pending_confluence svc)(other_symbol := None)\<rparr>)
             else
               (analyze_confluence signal other_signal,
                svc\<lparr>pending_confluence := (pending_confluence svc)(other_symbol := None)\<rparr>))"

definition apply_filter_adjustments :: "StrategicSignal \<Rightarrow> adjustments \<Rightarrow> StrategicSignal" where
  "apply_filter_adjustments signal adj =
     (let s1 = (case tighten_stop adj of
                  Some f \<Rightarrow>
                    if direction signal = ''COMPRA''
                    then signal\<lparr>stop_loss := entry_price signal - (entry_price signal - stop_loss signal) / f\<rparr>
                    else signal\<lparr>stop_loss := entry_price signal + (stop_loss signal - entry_price signal) / f\<rparr>
                | None \<Rightarrow>
                    (case widen_stop adj of
                       Some f \<Rightarrow>
                         if direction signal = ''COMPRA''
                         then signal\<lparr>stop_loss := entry_price signal - (entry_price signal - stop_loss signal) * f\<rparr>
                         else signal\<lparr>stop_loss := entry_price signal + (stop_loss signal - entry_price signal) * f\<rparr>
                     | None \<Rightarrow> signal));
          s2 = (if use_limit_orders adj \<noteq> None \<and> entry_type s1 = MARKET
                then s1\<lparr>entry_type := LIMIT\<rparr> else s1)
      in if adj \<noteq> no_adjustments then s2\<lparr>filter_adjustments := Some adj\<rparr> else s2)"

definition emit_strategic_signal :: "StrategicSignalService \<Rightarrow> StrategicSignal \<Rightarrow> StrategicSignalService" where
  "emit_strategic_signal svc signal =
     svc\<lparr>published_ss := published_ss svc @
            [SIGNAL_GENERATED (if confidence signal \<ge> 0.7 then ALERT else WARNING) signal]\<rparr>"

text \<open>
  The constructor \<^verbatim>\<open>StrategicSignal(...)\<close> as \<^verbatim>\<open>create_strategic_signal\<close> calls it; the
  field constraints of the model class raise \<^verbatim>\<open>ValidationError\<close>.
\<close>

definition new_signal ::
  "string \<Rightarrow> SetupType \<Rightarrow> string \<Rightarrow> string \<Rightarrow> real \<Rightarrow> real \<Rightarrow> real list \<Rightarrow> real \<Rightarrow> factor list
     \<Rightarrow> string \<Rightarrow> int \<Rightarrow> py_error + StrategicSignal" where
  "new_signal signal_id st symb dir entry stop tgts conf factors detected_by now =
     (let risk = \<bar>entry - stop\<bar>;
          reward = (case tgts of [] \<Rightarrow> risk | t # _ \<Rightarrow> \<bar>t - entry\<bar>);
          rr = (if risk > 0 then reward / risk else 0)
      in if entry > 0 \<and> stop > 0 \<and> 0 \<le> conf \<and> conf \<le> 1 \<and> rr > 0 then
           Inr \<lparr>sig_id = signal_id, timestamp = now, symbol = symb, setup_type = st,
                direction = dir, state = PENDING, entry_price = entry,
                entry_type = determine_entry_type st, stop_loss = stop, targets = tgts,
                confidence = conf, risk_reward = rr, conflict_status = NO_CONFLICT,
                confluence_factors = factors, expiration_time = now + seconds (5 * 60),
                time_to_expiry_seconds = 300, filter_adjustments = None,
                created_by = detected_by, execution_price = None, execution_time = None,
                exit_price = None, exit_time = None, pnl = None\<rparr>
         else Inl ValidationError)"

text \<open>
  \<^verbatim>\<open>create_strategic_signal\<close>.  \<open>signal_id\<close> is the fresh \<^verbatim>\<open>uuid4\<close>.  In the branch of
  the failed filters the test for the manipulation warning compares the word MANIPULATION
  with warnings that contain a lower-case word, which never holds, so nothing is emitted
  there.  The signal returned is the object that the lifecycle manager has stored.
\<close>

definition create_strategic_signal ::
  "StrategicSignalService \<Rightarrow> string \<Rightarrow> SetupType \<Rightarrow> string \<Rightarrow> string \<Rightarrow> real \<Rightarrow> real \<Rightarrow> real list
     \<Rightarrow> real \<Rightarrow> factor list \<Rightarrow> string \<Rightarrow> int
     \<Rightarrow> py_error + (StrategicSignal option \<times> StrategicSignalService)" where
  "create_strategic_signal svc signal_id st symb dir entry stop tgts conf factors detected_by now =
     (case new_signal signal_id st symb dir entry stop tgts conf factors detected_by now of
        Inl e \<Rightarrow> Inl e
      | Inr signal \<Rightarrow>
          (let fr = apply_all (filters_enabled svc) (manipulation_threshold_cf svc) signal
                      (build_context svc symb)
           in if \<not> passed_all fr then
                Inr (None, svc\<lparr>signals_filtered := signals_filtered svc + 1\<rparr>)
              else
                (let s1 = signal\<lparr>confidence := min (conf * confidence_multiplier fr) 1.0\<rparr>;
                     s2 = apply_filter_adjustments s1 (adjustments_all fr);
                     cc = check_confluence svc s2 now;
                     svc1 = snd cc;
                     status = fst (fst cc);
                     s3 = s2\<lparr>conflict_status := status\<rparr>
                 in if status = MAJOR_CONFLICT
                       \<and> confidence s3 * (1 - confidence_penalty) < 0.5 then
                      Inr (None, svc1\<lparr>confluence_conflicts := confluence_conflicts svc1 + 1\<rparr>)
                    else
                      (let s4 = (if status = NO_CONFLICT
                                   then s3\<lparr>confidence := min (confidence s3 + confidence_boost) 1.0\<rparr>
                                 else if status = MAJOR_CONFLICT
                                   then s3\<lparr>confidence := confidence s3 * (1 - confidence_penalty)\<rparr>
                                 else s3);
                           svc2 = (if status = NO_CONFLICT
                                     then svc1\<lparr>confluence_matches := confluence_matches svc1 + 1\<rparr>
                                   else if status = MAJOR_CONFLICT
                                     then svc1\<lparr>confluence_conflicts := confluence_conflicts svc1 + 1\<rparr>
                                   else svc1);
                           s5 = s4\<lparr>confluence_factors := confluence_factors s4 @
                                     map FILTER_WARNING (take 2 (warnings_all fr))\<rparr>;
                           created = create_signal (lifecycle_manager svc2) s5 now;
                           stored = dict_get (active_signals (snd created)) (sig_id s5) s5;
                           svc3 = svc2\<lparr>lifecycle_manager := snd created,
                                       signals_created := signals_created svc2 + 1\<rparr>
                       in Inr (Some stored, emit_strategic_signal svc3 stored)))))"

text \<open>\<^verbatim>\<open>_handle_market_update\<close>: the argument is the books by symbol of the market data.\<close>

definition handle_market_update_ss ::
  "StrategicSignalService \<Rightarrow> (string \<rightharpoonup> OrderBook) \<Rightarrow> int \<Rightarrow> StrategicSignalService" where
  "handle_market_update_ss svc md now =
     svc\<lparr>last_market_data := Some md,
         pending_confluence :=
           (\<lambda>symb. case pending_confluence svc symb of
                      None \<Rightarrow> None
                    | Some (s, ts) \<Rightarrow>
                        if timedelta_seconds (now - ts) > timeout_seconds then None
                        else Some (s, ts))\<rparr>"

definition handle_state_changed_ss :: "StrategicSignalService \<Rightarrow> SignalState \<Rightarrow> StrategicSignalService" where
  "handle_state_changed_ss svc new_state =
     (if new_state = EXECUTED then svc\<lparr>signals_executed := signals_executed svc + 1\<rparr> else svc)"

section \<open>Concrete inputs\<close>

text \<open>
  The scenario of the specification: a long candidate on WDO, entry 5000, stop 4990,
  one target 5020, confidence 0.65.
\<close>

definition example_signal :: StrategicSignal where
  "example_signal =
     \<lparr>sig_id = ''s1'', timestamp = 0, symbol = ''WDO'', setup_type = REVERSAL_SLOW,
      direction = ''COMPRA'', state = PENDING, entry_price = 5000, entry_type = LIMIT,
      stop_loss = 4990, targets = [5020], confidence = 0.65, risk_reward = 2,
      conflict_status = NO_CONFLICT, confluence_factors = [],
      expiration_time = 300000000, time_to_expiry_seconds = 300,
      filter_adjustments = None, created_by = ''SYSTEM'',
      execution_price = None, execution_time = None, exit_price = None, exit_time = None,
      pnl = None\<rparr>"

text \<open>The lifecycle manager after one \<^verbatim>\<open>create_signal\<close> at time 0.\<close>

definition example_manager :: SetupLifecycleManager where
  "example_manager = snd (create_signal (init_lifecycle_manager Map.empty) example_signal 0)"

text \<open>A confluence alert without details, and a clock value at 12:00.\<close>

definition example_alert :: Signal where
  "example_alert =
     \<lparr>source = CONFLUENCE, level = ALERT, message = ''confluence'', timestamp_sg = 0,
      details = \<lparr>profit_reais = None, profit = None, confirmations = None,
                 original_pattern = None, cvd_roc = None, divergence_event = None\<rparr>\<rparr>"

definition noon :: int where
  "noon = seconds (12 * 3600)"

text \<open>The risk service after one closed trade that lost 1000: the emergency breaker is set.\<close>

definition example_emergency :: RiskManagementService where
  "example_emergency = handle_trade_closed init_risk_service (Some (- 1000))"

text \<open>An informational system signal without details: its quality score is below 0.4.\<close>

definition example_info :: Signal where
  "example_info =
     \<lparr>source = SYSTEM, level = INFO, message = ''info'', timestamp_sg = 0,
      details = \<lparr>profit_reais = None, profit = None, confirmations = None,
                 original_pattern = None, cvd_roc = None, divergence_event = None\<rparr>\<rparr>"

text \<open>
  The example signal after its execution at the entry price, and a position manager with
  a ceiling of one position that has opened the position of that signal at time 0.
\<close>

definition example_executed :: StrategicSignal where
  "example_executed = example_signal\<lparr>state := EXECUTED, execution_price := Some 5000\<rparr>"

definition example_pm_open :: PositionManager where
  "example_pm_open =
     snd (handle_signal_state_changed (init_position_manager\<lparr>max_positions := 1\<rparr>)
            ''s1'' EXECUTED (Some example_executed) 0)"



text \<open>A bearish divergence warning on WDO, which is against long positions.\<close>

definition example_bearish :: Signal where
  "example_bearish =
     \<lparr>source = DIVERGENCE_WARNING, level = WARNING, message = ''divergence'', timestamp_sg = 0,
      details = \<lparr>profit_reais = None, profit = None, confirmations = None,
                 original_pattern = None, cvd_roc = None,
                 divergence_event = Some \<lparr>symbol_dv = ''WDO'', direction_dv = ''BEARISH''\<rparr>\<rparr>\<rparr>"

text \<open>The position of the example signal as opened, after the losing and after the winning tick.\<close>

definition example_position :: Position where
  "example_position =
     \<lparr>id_p = ''POS_WDO_0'', signal_id_p = ''s1'', symbol_p = ''WDO'', direction_p = ''COMPRA'',
      entry_price_p = 5000, entry_time = 0, size_p = 1, stop_loss_p = 4990,
      targets_p = [5020], current_price = 5000, pnl_p = 0, pnl_points = 0,
      status = ''OPEN'', exit_price_p = None, exit_time_p = None, exit_reason = None,
      max_profit = 0, max_loss = 0, warnings_received = []\<rparr>"




text \<open>The manager with the open example position after one bearish divergence warning.\<close>

definition example_pm_once :: PositionManager where
  "example_pm_once = snd (handle_divergence_warning example_pm_open example_bearish 1000000)"

text \<open>
  A fresh strategic signal service, a short candidate on DOL, and the service after that
  candidate has gone through \<^verbatim>\<open>_check_confluence\<close> at time 0: its DOL slot is taken.
\<close>

definition example_service :: StrategicSignalService where
  "example_service = init_strategic_service (init_lifecycle_manager Map.empty)"

definition example_dol :: StrategicSignal where
  "example_dol = example_signal\<lparr>sig_id := ''d1'', symbol := ''DOL'', direction := ''VENDA''\<rparr>"

definition example_service_dol :: StrategicSignalService where
  "example_service_dol = snd (check_confluence example_service example_dol 0)"

text \<open>
  The scenario of the specification run on the fresh service: the long WDO candidate with
  confidence 0.65, no book data, no candidate waiting on DOL.
\<close>

definition example_scenario :: "py_error + (StrategicSignal option \<times> StrategicSignalService)" where
  "example_scenario =
     create_strategic_signal example_service ''s1'' REVERSAL_SLOW ''WDO'' ''COMPRA''
       5000 4990 [5020] 0.65 [] ''SYSTEM'' 0"







section \<open>Properties\<close>

subsection \<open>Lifecycle manager\<close>

lemma is_valid_transition_table:
  "is_valid_transition a b \<longleftrightarrow> (a, b) \<in> transition_table"
  by (cases a; cases b)
     (simp_all add: is_valid_transition_def valid_transitions_def dict_get_def transition_table_def)

lemma terminal_no_transition:
  "a \<in> {EXPIRED, STOPPED, TARGET_HIT} \<Longrightarrow> \<not> is_valid_transition a b"
  by (auto simp: is_valid_transition_table transition_table_def)

lemma archive_signal_present:
  "active_signals m (sig_id s) \<noteq> None \<Longrightarrow> \<exists>m'. archive_signal m s = Inr m'"
  by (simp add: archive_signal_def Let_def)

lemma update_state_id: "sig_id (update_state s ns kw now) = sig_id s"
  by (simp add: update_state_def Let_def split: option.splits prod.splits)

lemma update_statistics_active: "active_signals (update_statistics m ns) = active_signals m"
  by (simp add: update_statistics_def)

lemma transition_state_valid:
  assumes "keys_are_ids m" "active_signals m i = Some s" "is_valid_transition (state s) ns"
  shows "\<exists>m'. transition_state m i ns kw now = Inr (True, m')"
proof -
  have k: "sig_id s = i" using assms(1,2) by (simp add: keys_are_ids_def)
  show ?thesis
  proof (cases "ns \<in> set [EXPIRED, STOPPED, TARGET_HIT]")
    case False
    then show ?thesis using assms(2,3) by (simp add: transition_state_def Let_def)
  next
    case True
    let ?s' = "update_state s ns kw now"
    let ?m3 = "update_statistics (m\<lparr>active_signals := (active_signals m)(i \<mapsto> ?s'),
        published := published m @ [STRATEGIC_SIGNAL_STATE_CHANGED i (state s) ns ?s']\<rparr>) ns"
    have "active_signals ?m3 (sig_id ?s') \<noteq> None"
      by (simp add: update_statistics_active update_state_id k)
    then obtain m4 where "archive_signal ?m3 ?s' = Inr m4"
      using archive_signal_present by blast
    then show ?thesis using assms(2,3) True
      by (simp add: transition_state_def Let_def)
  qed
qed

lemma transition_state_invalid:
  "\<not> (\<exists>s. active_signals m i = Some s \<and> is_valid_transition (state s) ns)
    \<Longrightarrow> transition_state m i ns kw now = Inr (False, m)"
  by (auto simp: transition_state_def Let_def split: option.splits)

text \<open>
  The invariant \<open>keys_are_ids\<close> holds at the start and is kept by both operations that
  write the active map.
\<close>

lemma keys_are_ids_init: "keys_are_ids (init_lifecycle_manager cfg)"
  by (simp add: keys_are_ids_def init_lifecycle_manager_def)

lemma keys_are_ids_create:
  "keys_are_ids m \<Longrightarrow> keys_are_ids (snd (create_signal m s now))"
  by (simp add: keys_are_ids_def create_signal_def Let_def)

lemma keys_are_ids_transition:
  assumes "keys_are_ids m" "transition_state m i ns kw now = Inr (b, m')"
  shows "keys_are_ids m'"
proof (cases "active_signals m i")
  case None
  then show ?thesis using assms by (simp add: transition_state_def)
next
  case (Some s)
  have k: "sig_id s = i" using assms(1) Some by (simp add: keys_are_ids_def)
  show ?thesis
  proof (cases "is_valid_transition (state s) ns")
    case False
    then show ?thesis using assms Some by (simp add: transition_state_def)
  next
    case True
    then show ?thesis using assms Some k
      by (auto simp: transition_state_def Let_def keys_are_ids_def update_statistics_active
            archive_signal_def update_state_id update_statistics_def
          split: if_splits sum.splits)
  qed
qed

text \<open>
  C1.  In a manager whose signals are stored under their own ids, \<^verbatim>\<open>transition_state\<close>
  returns true exactly when the id is in the active set and the pair of the signal's state
  and the new state is in the transition table; in every other case it returns false and
  the manager, with every signal in it, is what it was; in particular a signal in one of the
  states EXPIRED, STOPPED and TARGET\_HIT accepts no transition.
\<close>

theorem transition_state_iff_table:
  assumes "keys_are_ids m"
  shows "((\<exists>m'. transition_state m i ns kw now = Inr (True, m')) \<longleftrightarrow>
           (\<exists>s. active_signals m i = Some s \<and> (state s, ns) \<in> transition_table))
       \<and> ((\<nexists>s. active_signals m i = Some s \<and> (state s, ns) \<in> transition_table) \<longrightarrow>
           transition_state m i ns kw now = Inr (False, m))
       \<and> (\<forall>s. active_signals m i = Some s \<and> state s \<in> {EXPIRED, STOPPED, TARGET_HIT} \<longrightarrow>
           transition_state m i ns kw now = Inr (False, m))"
proof (intro conjI)
  show "(\<exists>m'. transition_state m i ns kw now = Inr (True, m')) \<longleftrightarrow>
           (\<exists>s. active_signals m i = Some s \<and> (state s, ns) \<in> transition_table)"
  proof
    assume "\<exists>m'. transition_state m i ns kw now = Inr (True, m')"
    then obtain m' where t: "transition_state m i ns kw now = Inr (True, m')" by blast
    show "\<exists>s. active_signals m i = Some s \<and> (state s, ns) \<in> transition_table"
    proof (rule ccontr)
      assume "\<nexists>s. active_signals m i = Some s \<and> (state s, ns) \<in> transition_table"
      then have "transition_state m i ns kw now = Inr (False, m)"
        using transition_state_invalid [of m i ns kw now] by (simp add: is_valid_transition_table)
      with t show False by simp
    qed
  next
    assume "\<exists>s. active_signals m i = Some s \<and> (state s, ns) \<in> transition_table"
    then show "\<exists>m'. transition_state m i ns kw now = Inr (True, m')"
      using transition_state_valid [OF assms] by (auto simp: is_valid_transition_table)
  qed
next
  show "(\<nexists>s. active_signals m i = Some s \<and> (state s, ns) \<in> transition_table) \<longrightarrow>
           transition_state m i ns kw now = Inr (False, m)"
    using transition_state_invalid [of m i ns kw now] by (simp add: is_valid_transition_table)
next
  show "\<forall>s. active_signals m i = Some s \<and> state s \<in> {EXPIRED, STOPPED, TARGET_HIT} \<longrightarrow>
           transition_state m i ns kw now = Inr (False, m)"
  proof (intro allI impI)
    fix s assume a: "active_signals m i = Some s \<and> state s \<in> {EXPIRED, STOPPED, TARGET_HIT}"
    then have "\<not> is_valid_transition (state s) ns" using terminal_no_transition by blast
    with a show "transition_state m i ns kw now = Inr (False, m)"
      by (simp add: transition_state_def)
  qed
qed

lemma example_manager_active:
  "active_signals example_manager =
     [''s1'' \<mapsto> example_signal\<lparr>expiration_time := 600000000, time_to_expiry_seconds := 600\<rparr>]"
  by (simp add: example_manager_def create_signal_def init_lifecycle_manager_def
        init_timeout_config_def dict_get_def example_signal_def seconds_def Let_def)

theorem transition_state_iff_table_witness:
  "keys_are_ids example_manager
   \<and> (\<exists>m'. transition_state example_manager ''s1'' ACTIVE no_kwargs 1 = Inr (True, m'))
   \<and> transition_state example_manager ''s1'' EXECUTED no_kwargs 1 = Inr (False, example_manager)
   \<and> transition_state example_manager ''zz'' ACTIVE no_kwargs 1 = Inr (False, example_manager)"
proof -
  have wf: "keys_are_ids example_manager"
    by (simp add: keys_are_ids_def example_manager_active example_signal_def)
  have a: "\<exists>s. active_signals example_manager ''s1'' = Some s \<and> (state s, ACTIVE) \<in> transition_table"
    by (simp add: example_manager_active example_signal_def transition_table_def)
  have b: "\<nexists>s. active_signals example_manager ''s1'' = Some s \<and> (state s, EXECUTED) \<in> transition_table"
    by (simp add: example_manager_active example_signal_def transition_table_def)
  have c: "\<nexists>s. active_signals example_manager ''zz'' = Some s \<and> (state s, ACTIVE) \<in> transition_table"
    by (simp add: example_manager_active)
  show ?thesis
    using wf a b c
      transition_state_iff_table [OF wf, of "''s1''" ACTIVE no_kwargs 1]
      transition_state_iff_table [OF wf, of "''s1''" EXECUTED no_kwargs 1]
      transition_state_iff_table [OF wf, of "''zz''" ACTIVE no_kwargs 1]
    by blast
qed

text \<open>
  C5, as the code has it.  \<^verbatim>\<open>create_signal\<close> has no test for an id that is already
  present: it returns true for every signal, stores the signal under its id (replacing a
  signal of the same id) in state PENDING with the expiration taken from the timeout
  table (300 seconds for a kind without an entry), publishes the creation event and starts
  the 2-second timer, whose body moves the signal to ACTIVE.
\<close>

theorem create_signal_always_accepts:
  "fst (create_signal m signal now) = True
   \<and> (let m' = snd (create_signal m signal now);
          t = dict_get (timeout_config m) (setup_type signal) 300;
          stored = signal\<lparr>expiration_time := now + seconds t, time_to_expiry_seconds := t,
                          state := PENDING\<rparr>
      in active_signals m' = (active_signals m)(sig_id signal \<mapsto> stored)
         \<and> published m' = published m @ [STRATEGIC_SIGNAL_CREATED stored t]
         \<and> timers m' = timers m @ [(2, sig_id signal)]
         \<and> (\<exists>m''. auto_activate_signal m' (sig_id signal) later = Inr m''
                   \<and> active_signals m'' (sig_id signal) = Some (stored\<lparr>state := ACTIVE\<rparr>)))"
  by (simp add: create_signal_def Let_def auto_activate_signal_def transition_state_def
        is_valid_transition_def valid_transitions_def dict_get_def update_state_def
        update_statistics_def no_kwargs_def)

theorem create_signal_duplicate_counterexample:
  "active_signals example_manager (sig_id example_signal) \<noteq> None
   \<and> fst (create_signal example_manager example_signal 7) = True"
  by (simp add: example_manager_active example_signal_def create_signal_def Let_def)

subsection \<open>Risk management service\<close>

lemma evaluate_signal_rejected_same:
  "fst (fst (evaluate_signal r s now)) = False \<Longrightarrow> snd (evaluate_signal r s now) = r"
  unfolding evaluate_signal_def Let_def
  by (auto split: option.splits if_splits)

lemma evaluate_signal_approved_ts:
  "fst (fst (evaluate_signal r s now)) = True \<Longrightarrow>
     ts_all (snd (evaluate_signal r s now)) = deque_append 500 (ts_all r) now"
  unfolding evaluate_signal_def Let_def
  by (auto simp: record_signal_approval_def Let_def split: option.splits if_splits)

lemma evaluate_stream_rejected_same:
  "True \<notin> set (fst (evaluate_stream r xs)) \<Longrightarrow> snd (evaluate_stream r xs) = r"
proof (induction xs arbitrary: r)
  case Nil
  then show ?case by simp
next
  case (Cons x xs)
  obtain s now where x: "x = (s, now)" by (cases x)
  obtain ok a r1 where e: "evaluate_signal r s now = ((ok, a), r1)"
    by (metis prod.collapse)
  obtain oks r2 where es: "evaluate_stream r1 xs = (oks, r2)" by (cases "evaluate_stream r1 xs")
  from Cons.prems x e es have nok: "\<not> ok" and rest: "True \<notin> set oks" by auto
  from nok e have "r1 = r" using evaluate_signal_rejected_same [of r s now] by simp
  moreover from rest es Cons.IH [of r1] have "r2 = r1" by simp
  ultimately show ?case using x e es by simp
qed

lemma handle_signal_generated_rejected_ts:
  "fst (fst (evaluate_signal r s now)) = False \<Longrightarrow>
     signal_timestamps (handle_signal_generated r s now) = signal_timestamps r"
  using evaluate_signal_rejected_same [of r s now]
  by (cases "evaluate_signal r s now") (auto simp: handle_signal_generated_def signal_timestamps_def)

text \<open>
  C10.  A call of \<^verbatim>\<open>evaluate_signal\<close> that returns approved = false leaves the timestamp
  deques as they were, also when it is made through the subscriber
  \<^verbatim>\<open>_handle_signal_generated\<close>; an approving call appends its clock value.  Hence after a
  stream of candidates that were all rejected the deques, and with them the verdict of the
  frequency check for every signal and clock value, are those from before the stream.
\<close>

theorem rejected_signals_leave_timestamps:
  "(fst (fst (evaluate_signal r s now)) = False \<longrightarrow>
      signal_timestamps (snd (evaluate_signal r s now)) = signal_timestamps r
      \<and> signal_timestamps (handle_signal_generated r s now) = signal_timestamps r)
   \<and> (fst (fst (evaluate_signal r s now)) = True \<longrightarrow>
      ts_all (snd (evaluate_signal r s now)) = deque_append 500 (ts_all r) now)
   \<and> (True \<notin> set (fst (evaluate_stream r xs)) \<longrightarrow>
      signal_timestamps (snd (evaluate_stream r xs)) = signal_timestamps r
      \<and> (\<forall>s' t. check_signal_frequency (snd (evaluate_stream r xs)) s' t
                 = check_signal_frequency r s' t))"
  using evaluate_signal_rejected_same [of r s now] evaluate_signal_approved_ts [of r s now]
    evaluate_stream_rejected_same [of r xs] handle_signal_generated_rejected_ts [of r s now]
  by simp

lemma example_info_rejected:
  "fst (evaluate_signal init_risk_service example_info t) =
     (False, \<lparr>approved = False, risk_level = MEDIUM, quality = POOR,
              reasons = [INSUFFICIENT_QUALITY (3 / 23)],
              recommendations = [PREFER_CONFLUENCE], timestamp_as = t\<rparr>)"
  by (simp add: evaluate_signal_def init_risk_service_def example_info_def
        check_circuit_breakers_def check_signal_frequency_def count_after_def
        evaluate_signal_quality_def source_score_def level_score_def profit_score_def
        confirmations_score_def pattern_score_def high_quality_patterns_def rating_of_def Let_def)

lemma example_alert_approved:
  "fst (fst (evaluate_signal init_risk_service example_alert noon)) = True"
  by (simp add: evaluate_signal_def init_risk_service_def example_alert_def noon_def
        check_circuit_breakers_def check_signal_frequency_def count_after_def
        evaluate_signal_quality_def source_score_def level_score_def profit_score_def
        confirmations_score_def pattern_score_def high_quality_patterns_def rating_of_def Let_def
        evaluate_contextual_risk_def calculate_current_risk_level_def hour_of_def seconds_def)

theorem rejected_signals_leave_timestamps_witness:
  "fst (fst (evaluate_signal init_risk_service example_info noon)) = False
   \<and> signal_timestamps (snd (evaluate_signal init_risk_service example_info noon))
       = signal_timestamps init_risk_service
   \<and> fst (fst (evaluate_signal init_risk_service example_alert noon)) = True
   \<and> ts_all (snd (evaluate_signal init_risk_service example_alert noon))
       = deque_append 500 (ts_all init_risk_service) noon
   \<and> True \<notin> set (fst (evaluate_stream init_risk_service [(example_info, noon), (example_info, noon + 1)]))
   \<and> signal_timestamps (snd (evaluate_stream init_risk_service [(example_info, noon), (example_info, noon + 1)]))
       = signal_timestamps init_risk_service"
proof -
  have a: "fst (fst (evaluate_signal init_risk_service example_info noon)) = False"
    by (simp add: example_info_rejected)
  have same: "snd (evaluate_signal init_risk_service example_info noon) = init_risk_service"
    using a by (rule evaluate_signal_rejected_same)
  have b: "True \<notin> set (fst (evaluate_stream init_risk_service
                               [(example_info, noon), (example_info, noon + 1)]))"
  proof -
    obtain a1 where e1: "evaluate_signal init_risk_service example_info noon = ((False, a1), init_risk_service)"
      using example_info_rejected [of noon] same by (metis prod.collapse)
    obtain a2 where e2: "evaluate_signal init_risk_service example_info (noon + 1) = ((False, a2), init_risk_service)"
      using example_info_rejected [of "noon + 1"]
        evaluate_signal_rejected_same [of init_risk_service example_info "noon + 1"]
      by (metis fst_conv prod.collapse)
    show ?thesis by (simp add: e1 e2)
  qed
  show ?thesis
    using a b example_alert_approved
      rejected_signals_leave_timestamps [of init_risk_service example_info noon
        "[(example_info, noon), (example_info, noon + 1)]"]
      rejected_signals_leave_timestamps [of init_risk_service example_alert noon "[]"]
    by simp
qed

lemma foldl_keeps_emergency:
  "cb_emergency r \<Longrightarrow> \<forall>i \<in> set inputs. \<not> is_reset_or_override i \<and> \<not> is_trade_closed i
     \<Longrightarrow> cb_emergency (foldl risk_step r inputs)"
proof (induction inputs arbitrary: r)
  case Nil
  then show ?case by simp
next
  case (Cons i inputs)
  have "cb_emergency (risk_step r i)"
  proof (cases i)
    case (EvaluateSignal s now)
    have "fst (fst (evaluate_signal r s now)) = False"
      using Cons.prems(1) by (simp add: evaluate_signal_def check_circuit_breakers_def Let_def)
    then show ?thesis
      using Cons.prems(1) EvaluateSignal evaluate_signal_rejected_same [of r s now] by simp
  next
    case (SignalGenerated s now)
    have "fst (fst (evaluate_signal r s now)) = False"
      using Cons.prems(1) by (simp add: evaluate_signal_def check_circuit_breakers_def Let_def)
    then show ?thesis
      using Cons.prems(1) SignalGenerated evaluate_signal_rejected_same [of r s now]
      by (cases "evaluate_signal r s now") (auto simp: handle_signal_generated_def)
  next
    case TradeExecuted
    then show ?thesis using Cons.prems(1) by (simp add: handle_trade_executed_def)
  next
    case (TradeClosed p)
    then show ?thesis using Cons.prems(2) by simp
  next
    case MarketDataUpdated
    then show ?thesis using Cons.prems(1) by (simp add: handle_market_update_rm_def)
  next
    case (DailyReset now)
    then show ?thesis using Cons.prems(2) by simp
  next
    case (ManualOverride b a why now)
    then show ?thesis using Cons.prems(2) by simp
  qed
  then show ?case using Cons.IH [of "risk_step r i"] Cons.prems(2) by simp
qed

text \<open>
  C2, as the code has it.  While the emergency breaker is set, \<^verbatim>\<open>evaluate_signal\<close>
  rejects every signal with risk level CRITICAL, and the breaker stays set over every run
  of evaluations, signal-generated, trade-executed and market-update events.  It is
  cleared by the daily reset and set to the operator's value by a manual override of
  \<open>emergency\<close>; a trade-closed event recomputes it from the updated daily P&L and so clears
  it when that P&L is above minus the emergency stop.
\<close>

theorem emergency_blocks_until_cleared:
  "(cb_emergency r \<longrightarrow>
      fst (fst (evaluate_signal r s now)) = False
      \<and> risk_level (snd (fst (evaluate_signal r s now))) = CRITICAL
      \<and> cb_emergency (snd (evaluate_signal r s now)))
   \<and> (cb_emergency r \<and> (\<forall>i \<in> set inputs. \<not> is_reset_or_override i \<and> \<not> is_trade_closed i) \<longrightarrow>
      cb_emergency (foldl risk_step r inputs))
   \<and> cb_emergency (handle_trade_closed r p)
       = (daily_pnl r + (case p of None \<Rightarrow> 0 | Some x \<Rightarrow> x) \<le> - emergency_stop_loss r)
   \<and> \<not> cb_emergency (reset_daily_metrics r now)
   \<and> cb_emergency (manual_override r ''emergency'' active why now) = active"
proof (intro conjI)
  show "cb_emergency r \<longrightarrow>
      fst (fst (evaluate_signal r s now)) = False
      \<and> risk_level (snd (fst (evaluate_signal r s now))) = CRITICAL
      \<and> cb_emergency (snd (evaluate_signal r s now))"
    by (simp add: evaluate_signal_def check_circuit_breakers_def Let_def)
  show "cb_emergency r \<and> (\<forall>i \<in> set inputs. \<not> is_reset_or_override i \<and> \<not> is_trade_closed i) \<longrightarrow>
      cb_emergency (foldl risk_step r inputs)"
    using foldl_keeps_emergency [of r inputs] by blast
  show "cb_emergency (handle_trade_closed r p)
       = (daily_pnl r + (case p of None \<Rightarrow> 0 | Some x \<Rightarrow> x) \<le> - emergency_stop_loss r)"
    by (simp add: handle_trade_closed_def update_circuit_breakers_def Let_def)
  show "\<not> cb_emergency (reset_daily_metrics r now)"
    by (simp add: reset_daily_metrics_def Let_def)
  show "cb_emergency (manual_override r ''emergency'' active why now) = active"
    by (simp add: manual_override_def breaker_state_def set_breaker_def Let_def)
qed

lemma example_emergency_eq:
  "example_emergency =
     init_risk_service\<lparr>daily_pnl := - 1000, consecutive_losses := 1, cb_emergency := True\<rparr>"
  by (simp add: example_emergency_def handle_trade_closed_def init_risk_service_def
      update_circuit_breakers_def Let_def)

lemma example_emergency_set: "cb_emergency example_emergency"
  by (simp add: example_emergency_eq)

theorem emergency_blocks_until_cleared_witness:
  "cb_emergency example_emergency
   \<and> fst (fst (evaluate_signal example_emergency example_alert noon)) = False
   \<and> risk_level (snd (fst (evaluate_signal example_emergency example_alert noon))) = CRITICAL
   \<and> cb_emergency (foldl risk_step example_emergency
                       [EvaluateSignal example_alert noon, TradeExecuted, MarketDataUpdated])"
proof -
  have h: "\<forall>i \<in> set [EvaluateSignal example_alert noon, TradeExecuted, MarketDataUpdated].
             \<not> is_reset_or_override i \<and> \<not> is_trade_closed i"
    by simp
  show ?thesis
    using example_emergency_set h
      emergency_blocks_until_cleared [of example_emergency example_alert noon
        "[EvaluateSignal example_alert noon, TradeExecuted, MarketDataUpdated]"]
    by blast
qed

lemma example_recovered_eq:
  "handle_trade_closed example_emergency (Some 900) =
     init_risk_service\<lparr>daily_pnl := - 100, consecutive_losses := 0, cb_emergency := False\<rparr>"
  by (simp add: example_emergency_eq handle_trade_closed_def init_risk_service_def
      update_circuit_breakers_def Let_def)

theorem emergency_cleared_by_trade_closed_counterexample:
  "cb_emergency example_emergency
   \<and> \<not> is_reset_or_override (TradeClosed (Some 900))
   \<and> \<not> cb_emergency (risk_step example_emergency (TradeClosed (Some 900)))
   \<and> fst (fst (evaluate_signal (risk_step example_emergency (TradeClosed (Some 900)))
                  example_alert noon)) = True"
proof -
  have "fst (fst (evaluate_signal
          (init_risk_service\<lparr>daily_pnl := - 100, consecutive_losses := 0, cb_emergency := False\<rparr>)
          example_alert noon)) = True"
    by (simp add: evaluate_signal_def init_risk_service_def example_alert_def noon_def
        check_circuit_breakers_def check_signal_frequency_def count_after_def
        evaluate_signal_quality_def source_score_def level_score_def profit_score_def
        confirmations_score_def pattern_score_def high_quality_patterns_def rating_of_def Let_def
        evaluate_contextual_risk_def calculate_current_risk_level_def hour_of_def seconds_def)
  then show ?thesis
    by (simp add: example_emergency_set example_recovered_eq)
qed

subsection \<open>Position manager\<close>

lemma length_map_entry: "length (AList.map_entry k f xs) = length xs"
  by (induction xs) auto

lemma length_update_le: "length (AList.update k v xs) \<le> Suc (length xs)"
  by (induction xs) auto

lemma write_back_bound:
  "length (positions (write_back pm p)) = length (positions pm)
   \<and> max_positions (write_back pm p) = max_positions pm"
  by (simp add: write_back_def length_map_entry)

lemma close_position_bound:
  "length (positions (snd (close_position pm p why ex now))) \<le> length (positions pm)
   \<and> max_positions (snd (close_position pm p why ex now)) = max_positions pm"
  by (cases ex)
     (simp_all add: close_position_def Let_def write_back_bound AList.length_delete_le)

lemma close_position_bound_int:
  assumes "int (length (positions pm)) \<le> max_positions pm"
  shows "int (length (positions (snd (close_position pm p why ex now)))) \<le> max_positions pm
         \<and> max_positions (snd (close_position pm p why ex now)) = max_positions pm"
proof -
  have "length (positions (snd (close_position pm p why ex now))) \<le> length (positions pm)
        \<and> max_positions (snd (close_position pm p why ex now)) = max_positions pm"
    by (rule close_position_bound)
  with assms show ?thesis by linarith
qed

lemma open_position_bound:
  assumes that: "int (length (positions pm)) \<le> max_positions pm"
  shows "int (length (positions (open_position pm s now))) \<le> max_positions pm
     \<and> max_positions (open_position pm s now) = max_positions pm"
proof (cases "can_open_position pm")
  case False
  then show ?thesis using that by (simp add: open_position_def)
next
  case True
  then have lt: "int (length (positions pm)) < max_positions pm"
    by (simp add: can_open_position_def)
  have "\<And>k v. int (length (AList.update k v (positions pm))) \<le> max_positions pm"
  proof -
    fix k :: string and v :: Position
    have "length (AList.update k v (positions pm)) \<le> Suc (length (positions pm))"
      by (rule length_update_le)
    with lt show "int (length (AList.update k v (positions pm))) \<le> max_positions pm" by linarith
  qed
  then show ?thesis using True by (simp add: open_position_def Let_def)
qed

lemma divergence_loop_bound:
  "length (positions (snd (divergence_loop pm sy dir w now xs))) \<le> length (positions pm)
   \<and> max_positions (snd (divergence_loop pm sy dir w now xs)) = max_positions pm"
proof (induction xs arbitrary: pm)
  case Nil
  then show ?case by simp
next
  case (Cons x xs)
  obtain k p where x: "x = (k, p)" by (cases x)
  let ?p1 = "p\<lparr>warnings_received := warnings_received p @ [w]\<rparr>"
  let ?pm1 = "pm\<lparr>positions := AList.map_entry k (\<lambda>_. ?p1) (positions pm)\<rparr>"
  have b1: "length (positions ?pm1) = length (positions pm) \<and> max_positions ?pm1 = max_positions pm"
    by (simp add: length_map_entry)
  show ?case
  proof (cases "symbol_p p = sy \<and> direction_p p = dir")
    case False
    then show ?thesis using x Cons.IH [of pm] by auto
  next
    case True
    show ?thesis
    proof (cases "length (warnings_received ?p1) \<ge> 2 \<and> auto_manage ?pm1")
      case False
      then show ?thesis using x True Cons.IH [of ?pm1] b1 by (auto simp: Let_def)
    next
      case c: True
      obtain e pm2 where cp: "close_position ?pm1 ?p1 ''MULTIPLE_WARNINGS'' (Some (current_price ?p1)) now = (e, pm2)"
        by (cases "close_position ?pm1 ?p1 ''MULTIPLE_WARNINGS'' (Some (current_price ?p1)) now")
      have "length (positions pm2) \<le> length (positions ?pm1) \<and> max_positions pm2 = max_positions ?pm1"
        using close_position_bound [of ?pm1 ?p1 "''MULTIPLE_WARNINGS''" "Some (current_price ?p1)" now] cp
        by simp
      then show ?thesis using x True c cp b1 by (cases e) (auto simp: Let_def)
    qed
  qed
qed

lemma check_positions_bound:
  "length (positions (snd (check_positions pm price now ps))) \<le> length (positions pm)
   \<and> max_positions (snd (check_positions pm price now ps)) = max_positions pm"
proof (induction ps arbitrary: pm)
  case Nil
  then show ?case by simp
next
  case (Cons p ps)
  let ?p1 = "update_price p price"
  let ?pm1 = "write_back pm ?p1"
  have b1: "length (positions ?pm1) = length (positions pm) \<and> max_positions ?pm1 = max_positions pm"
    by (rule write_back_bound)
  have cl: "\<And>why. length (positions (snd (close_position ?pm1 ?p1 why (Some price) now))) \<le> length (positions pm)
                \<and> max_positions (snd (close_position ?pm1 ?p1 why (Some price) now)) = max_positions pm"
    using close_position_bound [of ?pm1 ?p1 _ "Some price" now] b1 by simp
  show ?case
  proof (cases "should_stop ?p1")
    case True
    obtain e pm2 where cp: "close_position ?pm1 ?p1 ''STOP_LOSS'' (Some price) now = (e, pm2)"
      by (cases "close_position ?pm1 ?p1 ''STOP_LOSS'' (Some price) now")
    have "length (positions pm2) \<le> length (positions pm) \<and> max_positions pm2 = max_positions pm"
      using cl [of "''STOP_LOSS''"] cp by simp
    then show ?thesis using True cp Cons.IH [of pm2]
      by (cases e) (auto simp: Let_def)
  next
    case False
    show ?thesis
    proof (cases "check_targets ?p1")
      case (Some th)
      obtain e pm2 where cp: "close_position ?pm1 ?p1 (''TARGET_'' @ digits (th + 1)) (Some price) now = (e, pm2)"
        by (cases "close_position ?pm1 ?p1 (''TARGET_'' @ digits (th + 1)) (Some price) now")
      have "length (positions pm2) \<le> length (positions pm) \<and> max_positions pm2 = max_positions pm"
        using cl [of "''TARGET_'' @ digits (th + 1)"] cp by simp
      then show ?thesis using False Some cp Cons.IH [of pm2]
        by (cases e) (auto simp: Let_def)
    next
      case None
      have b2: "length (positions (write_back ?pm1 (update_trailing_stop ?pm1 ?p1))) = length (positions pm)
                \<and> max_positions (write_back ?pm1 (update_trailing_stop ?pm1 ?p1)) = max_positions pm"
        using write_back_bound [of ?pm1 "update_trailing_stop ?pm1 ?p1"] b1 by simp
      show ?thesis
        using False None Cons.IH [of ?pm1] Cons.IH [of "write_back ?pm1 (update_trailing_stop ?pm1 ?p1)"] b1 b2
        by (auto simp: Let_def)
    qed
  qed
qed

lemma handle_market_update_bound:
  "length (positions (snd (handle_market_update pm md now))) \<le> length (positions pm)
   \<and> max_positions (snd (handle_market_update pm md now)) = max_positions pm"
proof (induction md arbitrary: pm)
  case Nil
  then show ?case by simp
next
  case (Cons trades md)
  show ?case
  proof (cases "trades = []")
    case True
    then show ?thesis using Cons.IH [of pm] by simp
  next
    case False
    let ?ps = "filter (\<lambda>p. symbol_p p = fst (hd trades)) (map snd (positions pm))"
    obtain e pm1 where cp: "check_positions pm (snd (last trades)) now ?ps = (e, pm1)"
      by (cases "check_positions pm (snd (last trades)) now ?ps")
    have "length (positions pm1) \<le> length (positions pm) \<and> max_positions pm1 = max_positions pm"
      using check_positions_bound [of pm "snd (last trades)" now ?ps] cp by simp
    then show ?thesis using False cp Cons.IH [of pm1]
      by (cases e) (auto simp: Let_def)
  qed
qed

lemma close_each_bound:
  "length (positions (snd (close_each pm why now ps))) \<le> length (positions pm)
   \<and> max_positions (snd (close_each pm why now ps)) = max_positions pm"
proof (induction ps arbitrary: pm)
  case Nil
  then show ?case by simp
next
  case (Cons p ps)
  obtain e pm1 where cp: "close_position pm p why (Some (current_price p)) now = (e, pm1)"
    by (cases "close_position pm p why (Some (current_price p)) now")
  have "length (positions pm1) \<le> length (positions pm) \<and> max_positions pm1 = max_positions pm"
    using close_position_bound [of pm p why "Some (current_price p)" now] cp by simp
  then show ?case using cp Cons.IH [of pm1] by (cases e) auto
qed

lemma pm_step_bound:
  assumes "int (length (positions pm)) \<le> max_positions pm"
  shows "int (length (positions (pm_step pm i))) \<le> max_positions pm
         \<and> max_positions (pm_step pm i) = max_positions pm"
proof (cases i)
  case (SignalStateChanged sid st sg now)
  show ?thesis
  proof (cases sg)
    case None
    then show ?thesis using assms SignalStateChanged by (simp add: handle_signal_state_changed_def)
  next
    case (Some s)
    show ?thesis
    proof (cases "st = EXECUTED \<and> can_open_position pm")
      case True
      then show ?thesis using assms SignalStateChanged Some open_position_bound [OF assms, of s now]
        by (simp add: handle_signal_state_changed_def)
    next
      case False
      have "\<And>p why ex. int (length (positions (snd (close_position pm p why ex now)))) \<le> max_positions pm
             \<and> max_positions (snd (close_position pm p why ex now)) = max_positions pm"
        using close_position_bound_int [OF assms] by blast
      then show ?thesis using assms SignalStateChanged Some False
        by (auto simp: handle_signal_state_changed_def split: option.splits)
    qed
  qed
next
  case (SignalExpired sg now)
  have "\<And>p why ex. int (length (positions (snd (close_position pm p why ex now)))) \<le> max_positions pm
         \<and> max_positions (snd (close_position pm p why ex now)) = max_positions pm"
    using close_position_bound_int [OF assms] by blast
  then show ?thesis using assms SignalExpired
    by (auto simp: handle_signal_expired_def split: option.splits)
next
  case (DivergenceWarning sg now)
  have "\<And>sy dir w. int (length (positions (snd (divergence_loop pm sy dir w now (positions pm))))) \<le> max_positions pm
         \<and> max_positions (snd (divergence_loop pm sy dir w now (positions pm))) = max_positions pm"
  proof -
    fix sy dir w
    have "length (positions (snd (divergence_loop pm sy dir w now (positions pm)))) \<le> length (positions pm)
          \<and> max_positions (snd (divergence_loop pm sy dir w now (positions pm))) = max_positions pm"
      by (rule divergence_loop_bound)
    with assms show "int (length (positions (snd (divergence_loop pm sy dir w now (positions pm))))) \<le> max_positions pm
         \<and> max_positions (snd (divergence_loop pm sy dir w now (positions pm))) = max_positions pm"
      by linarith
  qed
  then show ?thesis using assms DivergenceWarning
    by (auto simp: handle_divergence_warning_def Let_def split: option.splits)
next
  case (ManipulationDetected sy)
  then show ?thesis using assms
    by (auto simp: handle_manipulation_warning_def split: option.splits)
next
  case (MarketUpdate md now)
  then show ?thesis using assms handle_market_update_bound [of pm md now] by simp
next
  case (RiskOverride b st now)
  then show ?thesis using assms close_each_bound [of pm "''EMERGENCY_STOP''" now "map snd (positions pm)"]
    by (auto simp: handle_risk_override_def close_all_positions_def)
next
  case (CloseAll why now)
  then show ?thesis using assms close_each_bound [of pm why now "map snd (positions pm)"]
    by (auto simp: close_all_positions_def)
qed

lemma pm_run_bound:
  "int (length (positions pm)) \<le> max_positions pm \<Longrightarrow>
     int (length (positions (pm_run pm inputs))) \<le> max_positions pm
     \<and> max_positions (pm_run pm inputs) = max_positions pm"
proof (induction inputs arbitrary: pm)
  case Nil
  then show ?case by (simp add: pm_run_def)
next
  case (Cons i inputs)
  have s: "int (length (positions (pm_step pm i))) \<le> max_positions (pm_step pm i)"
    and m: "max_positions (pm_step pm i) = max_positions pm"
    using pm_step_bound [OF Cons.prems, of i] by simp_all
  show ?case using Cons.IH [OF s] m by (simp add: pm_run_def)
qed

lemma executed_at_ceiling_unchanged:
  "\<not> can_open_position pm \<Longrightarrow> handle_signal_state_changed pm sid EXECUTED sg now = (None, pm)"
  by (auto simp: handle_signal_state_changed_def split: option.splits)

text \<open>
  C7.  From a state within the ceiling (the initial state with no position is one when
  the configured ceiling is not negative), every run of the handlers and of
  \<^verbatim>\<open>close_all_positions\<close> ends in a state whose number of open positions is at most
  \<^verbatim>\<open>max_positions\<close>, and the ceiling itself is never changed.  When the ceiling is
  reached, the handler of a transition to EXECUTED opens nothing and changes nothing.
\<close>

theorem open_positions_within_ceiling:
  assumes "int (length (positions pm)) \<le> max_positions pm"
  shows "int (length (positions (pm_run pm inputs))) \<le> max_positions (pm_run pm inputs)
         \<and> max_positions (pm_run pm inputs) = max_positions pm
         \<and> (\<not> can_open_position pm \<longrightarrow>
              handle_signal_state_changed pm sid EXECUTED sg now = (None, pm))"
  using pm_run_bound [OF assms, of inputs] executed_at_ceiling_unchanged [of pm sid sg now]
  by simp

lemma strftime_second_0: "strftime_second 0 = ''0''"
  by code_simp

lemma example_pm_open_eq:
  "example_pm_open =
     init_position_manager\<lparr>max_positions := 1,
       positions := [(''POS_WDO_0'', example_position)],
       signal_to_position := [''s1'' \<mapsto> ''POS_WDO_0''],
       total_opened := 1,
       published_pm := [POSITION_OPENED example_position example_executed]\<rparr>"
  by (simp add: example_pm_open_def handle_signal_state_changed_def can_open_position_def
        init_position_manager_def open_position_def Let_def strftime_second_0
        example_executed_def example_signal_def example_position_def or_else_def
        calculate_position_size_def)




lemma signal_id_p_update_price: "signal_id_p (update_price p x) = signal_id_p p"
  by (simp add: update_price_def Let_def)





theorem open_positions_within_ceiling_witness:
  "int (length (positions example_pm_open)) \<le> max_positions example_pm_open
   \<and> int (length (positions (pm_run example_pm_open
            [SignalStateChanged ''s2'' EXECUTED (Some (example_executed\<lparr>sig_id := ''s2''\<rparr>)) 5000000,
             MarketUpdate [[(''WDO'', 5010)]] 6000000]))) \<le> 1
   \<and> \<not> can_open_position example_pm_open
   \<and> handle_signal_state_changed example_pm_open ''s2'' EXECUTED
        (Some (example_executed\<lparr>sig_id := ''s2''\<rparr>)) 5000000 = (None, example_pm_open)"
proof -
  have h: "int (length (positions example_pm_open)) \<le> max_positions example_pm_open"
    by (simp add: example_pm_open_eq)
  have m: "max_positions example_pm_open = 1" by (simp add: example_pm_open_eq)
  have c: "\<not> can_open_position example_pm_open"
    by (simp add: can_open_position_def example_pm_open_eq)
  show ?thesis
    using h m c
      open_positions_within_ceiling [OF h,
        of "[SignalStateChanged ''s2'' EXECUTED (Some (example_executed\<lparr>sig_id := ''s2''\<rparr>)) 5000000,
             MarketUpdate [[(''WDO'', 5010)]] 6000000]"
           "''s2''" "Some (example_executed\<lparr>sig_id := ''s2''\<rparr>)" 5000000]
    by simp
qed








lemma example_pm_once_eq:
  "example_pm_once = example_pm_open\<lparr>positions :=
      [(''POS_WDO_0'', example_position\<lparr>warnings_received := [''DIVERGENCE_BEARISH'']\<rparr>)]\<rparr>"
  by (simp add: example_pm_once_def example_pm_open_eq handle_divergence_warning_def
        example_bearish_def example_position_def init_position_manager_def Let_def)








subsection \<open>Strategic signal service\<close>

lemma clamp_half_one:
  fixes x :: real
  shows "0.5 \<le> min (max x 0.5) 1.0 \<and> min (max x 0.5) 1.0 \<le> 1"
  by (simp add: min_def max_def)

lemma confidence_multiplier_range:
  "0.5 \<le> confidence_multiplier (apply_all en th s c) \<and> confidence_multiplier (apply_all en th s c) \<le> 1"
proof (cases "en \<and> passed (check_basic_validity s)")
  case False
  then show ?thesis by (auto simp: apply_all_def Let_def)
next
  case True
  then obtain x where "confidence_multiplier (apply_all en th s c) = min (max x 0.5) 1.0"
    by (simp add: apply_all_def Let_def)
  then show ?thesis using clamp_half_one [of x] by simp
qed

lemma apply_filter_adjustments_confidence:
  "confidence (apply_filter_adjustments s adj) = confidence s"
  by (simp add: apply_filter_adjustments_def Let_def split: option.splits)

lemma new_signal_confidence:
  "new_signal i st sy d e sl ts c fs by now = Inr s \<Longrightarrow> confidence s = c \<and> 0 \<le> c \<and> c \<le> 1"
  by (auto simp: new_signal_def Let_def split: if_splits)

lemma create_signal_stored:
  "dict_get (active_signals (snd (create_signal m s now))) (sig_id s) d =
     s\<lparr>expiration_time := now + seconds (dict_get (timeout_config m) (setup_type s) 300),
       time_to_expiry_seconds := dict_get (timeout_config m) (setup_type s) 300,
       state := PENDING\<rparr>"
  by (simp add: create_signal_def Let_def dict_get_def)

lemma scaled_confidence_range:
  fixes c m :: real
  assumes "0 \<le> c" "c \<le> 1" "0.5 \<le> m" "m \<le> 1"
  shows "0 \<le> min (c * m) 1 \<and> min (c * m) 1 \<le> 1"
  using assms by (simp add: min_def)

text \<open>
  C6.  Every signal that \<^verbatim>\<open>create_strategic_signal\<close> returns has a confidence between
  0 and 1: the constructor admits only a confidence in that range, the filter multiplier
  lies between 0.5 and 1, the boost is capped at 1 and the penalty multiplies by 0.8.
\<close>

theorem created_signal_confidence_in_unit_interval:
  assumes "create_strategic_signal svc i st sy d e sl ts c fs by now = Inr (Some s, svc')"
  shows "0 \<le> confidence s \<and> confidence s \<le> 1"
proof -
  from assms obtain s0 where n: "new_signal i st sy d e sl ts c fs by now = Inr s0"
    by (auto simp: create_strategic_signal_def split: sum.splits)
  have c01: "0 \<le> c" "c \<le> 1" using new_signal_confidence [OF n] by simp_all
  let ?fr = "apply_all (filters_enabled svc) (manipulation_threshold_cf svc) s0 (build_context svc sy)"
  let ?s1 = "s0\<lparr>confidence := min (c * confidence_multiplier ?fr) 1.0\<rparr>"
  let ?s2 = "apply_filter_adjustments ?s1 (adjustments_all ?fr)"
  let ?cc = "check_confluence svc ?s2 now"
  let ?status = "fst (fst ?cc)"
  define c2 where "c2 = min (c * confidence_multiplier ?fr) 1"
  have c2r: "0 \<le> c2" "c2 \<le> 1"
    using scaled_confidence_range [OF c01, of "confidence_multiplier ?fr"]
      confidence_multiplier_range [of "filters_enabled svc" "manipulation_threshold_cf svc" s0 "build_context svc sy"]
    by (simp_all add: c2_def)
  have cs2: "confidence ?s2 = c2"
    by (simp add: apply_filter_adjustments_confidence c2_def)
  from assms n have pass: "passed_all ?fr"
    by (auto simp: create_strategic_signal_def Let_def split: if_splits)
  show ?thesis
  proof (cases "?status = NO_CONFLICT")
    case True
    then have "confidence s = min (c2 + confidence_boost) 1"
      using assms n pass cs2
      by (auto simp: create_strategic_signal_def Let_def create_signal_stored emit_strategic_signal_def
               split: if_splits)
    then show ?thesis using c2r by (simp add: confidence_boost_def min_def)
  next
    case nc: False
    show ?thesis
    proof (cases "?status = MAJOR_CONFLICT")
      case True
      then have "confidence s = c2 * (1 - confidence_penalty)"
        using assms n pass cs2 nc
        by (auto simp: create_strategic_signal_def Let_def create_signal_stored emit_strategic_signal_def
                 split: if_splits)
      moreover have "0 \<le> c2 * (1 - confidence_penalty)" "c2 * (1 - confidence_penalty) \<le> 1"
        using c2r by (simp_all add: confidence_penalty_def mult_le_one)
      ultimately show ?thesis by simp
    next
      case False
      then have "confidence s = c2"
        using assms n pass cs2 nc
        by (auto simp: create_strategic_signal_def Let_def create_signal_stored emit_strategic_signal_def
                 split: if_splits)
      then show ?thesis using c2r by simp
    qed
  qed
qed

lemma example_new_signal:
  "new_signal ''s1'' REVERSAL_SLOW ''WDO'' ''COMPRA'' 5000 4990 [5020] 0.65 [] ''SYSTEM'' 0
     = Inr (example_signal\<lparr>entry_type := LIMIT\<rparr>)"
  by (simp add: new_signal_def example_signal_def determine_entry_type_def seconds_def Let_def)

lemma example_filters:
  "apply_all True 5 (example_signal\<lparr>entry_type := LIMIT\<rparr>) \<lparr>book = None, volatility = None\<rparr>
     = \<lparr>passed_all = True, final_score = 1, confidence_multiplier = 1,
        adjustments_all = no_adjustments, warnings_all = [], recommendation_all = PROCEED\<rparr>"
  by (simp add: apply_all_def check_basic_validity_def example_signal_def get_recommendation_def Let_def)

lemma example_scenario_created:
  "\<exists>s svc'. example_scenario = Inr (Some s, svc')
     \<and> confidence s = 0.65 + 0.15 \<and> state s = PENDING \<and> conflict_status s = NO_CONFLICT
     \<and> confluence_matches svc' = 1"
  unfolding example_scenario_def create_strategic_signal_def example_new_signal
  by (simp add: example_service_def init_strategic_service_def build_context_def
        apply_all_def check_basic_validity_def get_recommendation_def
        apply_filter_adjustments_def no_adjustments_def check_confluence_def Let_def
        create_signal_stored emit_strategic_signal_def confidence_boost_def example_signal_def)

theorem created_signal_confidence_in_unit_interval_witness:
  "\<exists>s svc'. example_scenario = Inr (Some s, svc') \<and> 0 \<le> confidence s \<and> confidence s \<le> 1"
proof -
  obtain s svc' where e: "example_scenario = Inr (Some s, svc')"
    using example_scenario_created by blast
  have "0 \<le> confidence s \<and> confidence s \<le> 1"
    using created_signal_confidence_in_unit_interval [OF e [unfolded example_scenario_def]] .
  with e show ?thesis by blast
qed

text \<open>
  C4.  The scenario of the specification on the code: no candidate waits on DOL, the
  filters pass with multiplier 1, and \<^verbatim>\<open>_check_confluence\<close> answers NO\_CONFLICT
  for the pair that has not arrived; \<^verbatim>\<open>create_strategic_signal\<close> treats that answer
  like a match, so the signal is created in state PENDING with confidence 0.65 + 0.15,
  not 0.65, and is counted as a confluence match.
\<close>

theorem unpaired_candidate_gets_confluence_boost:
  "pending_confluence example_service ''DOL'' = None
   \<and> (\<exists>s svc'. example_scenario = Inr (Some s, svc')
         \<and> confidence s = 0.65 + 0.15 \<and> state s = PENDING \<and> conflict_status s = NO_CONFLICT
         \<and> confluence_matches svc' = 1)"
  using example_scenario_created
  by (simp add: example_service_def init_strategic_service_def)

lemma timedelta_seconds_young:
  assumes "0 \<le> d" "d < seconds timeout_seconds"
  shows "\<not> timedelta_seconds d > timeout_seconds"
proof -
  have "d div 1000000 < 10" using assms by (simp add: seconds_def timeout_seconds_def)
  moreover have "0 \<le> d div 1000000" using assms(1) by simp
  ultimately have "(d div 1000000) mod 86400 = d div 1000000" by simp
  then show ?thesis using \<open>d div 1000000 < 10\<close>
    by (simp add: timedelta_seconds_def timeout_seconds_def)
qed

lemma check_confluence_young_slot:
  assumes "pending_confluence svc (if symbol s = ''WDO'' then ''DOL'' else ''WDO'') = Some (other, ts)"
    and "0 \<le> now - ts" and "now - ts < seconds timeout_seconds"
  shows "check_confluence svc s now =
           (analyze_confluence s other,
            svc\<lparr>pending_confluence :=
                  (pending_confluence svc)((if symbol s = ''WDO'' then ''DOL'' else ''WDO'') := None)\<rparr>)"
  using assms timedelta_seconds_young [OF assms(2,3)]
  by (simp add: check_confluence_def Let_def)

lemma example_service_dol_pending:
  "pending_confluence example_service_dol = [''DOL'' \<mapsto> (example_dol, 0)]"
  by (simp add: example_service_dol_def check_confluence_def example_service_def
        init_strategic_service_def example_dol_def example_signal_def Let_def)

text \<open>
  C3.  The DOL slot holds a candidate that arrived at time 0.  A WDO candidate that
  arrives 10.5 seconds later, and one that arrives one day and five seconds later, finds
  the slot older than the timeout of 10 seconds; the code compares the field
  \<^verbatim>\<open>timedelta.seconds\<close> (whole seconds, without the days) with the timeout, so in both
  cases it still pairs the two candidates (here with MAJOR\_CONFLICT) and does not store
  the new candidate in the WDO slot.  For a slot younger than the timeout the lemma
  \<open>check_confluence_young_slot\<close> above gives what the claim says.
\<close>

theorem stale_slot_is_still_paired:
  "pending_confluence example_service_dol ''DOL'' = Some (example_dol, 0)
   \<and> seconds timeout_seconds < 10500000 - 0
   \<and> fst (check_confluence example_service_dol example_signal 10500000)
       = (MAJOR_CONFLICT, OPPOSITE_DIRECTIONS ''COMPRA'' ''VENDA'')
   \<and> pending_confluence (snd (check_confluence example_service_dol example_signal 10500000)) ''WDO'' = None
   \<and> seconds timeout_seconds < 86405000000 - 0
   \<and> fst (check_confluence example_service_dol example_signal 86405000000)
       = (MAJOR_CONFLICT, OPPOSITE_DIRECTIONS ''COMPRA'' ''VENDA'')
   \<and> pending_confluence (snd (check_confluence example_service_dol example_signal 86405000000)) ''WDO'' = None"
  by (simp add: example_service_dol_pending check_confluence_def Let_def timedelta_seconds_def
        timeout_seconds_def seconds_def analyze_confluence_def example_signal_def example_dol_def)

end
